theory Spec2Isabelle
  imports Complex_Main
begin

section \<open>Values\<close>

text \<open>
  numpy's float64 numbers are idealised as real numbers.  The one place where the program
  leaves the finite numbers is the division of an all-zero row by its own norm, which
  numpy evaluates to a row of nan (0/0, with a warning and no exception): such a row is
  the value \<open>None\<close>, a finite row is \<open>Some\<close> of its entries.  Arithmetic on a
  nan row gives a nan row, and every comparison with nan is false.
\<close>

type_synonym vec3 = "real \<times> real \<times> real"
type_synonym quat = "real \<times> real \<times> real \<times> real"
type_synonym mat3 = "vec3 \<times> vec3 \<times> vec3"

datatype error = IndexError | ValueError | OverflowError | LibraryError

subsection \<open>Quaternion rows\<close>

definition norm4 :: "quat \<Rightarrow> real" where
  "norm4 q = (case q of (w, x, y, z) \<Rightarrow> sqrt (w\<^sup>2 + x\<^sup>2 + y\<^sup>2 + z\<^sup>2))"

definition neg4 :: "quat \<Rightarrow> quat" where
  "neg4 q = (case q of (w, x, y, z) \<Rightarrow> (- w, - x, - y, - z))"

definition sub4 :: "quat \<Rightarrow> quat \<Rightarrow> quat" where
  "sub4 p q = (case p of (a, b, c, d) \<Rightarrow> case q of (w, x, y, z) \<Rightarrow> (a - w, b - x, c - y, d - z))"

definition div4 :: "quat \<Rightarrow> real \<Rightarrow> quat" where
  "div4 q n = (case q of (w, x, y, z) \<Rightarrow> (w / n, x / n, y / n, z / n))"

text \<open>One row of \<^verbatim>\<open>quat / np.linalg.norm(quat, axis=1)[:, None]\<close>.\<close>

fun normalize_row :: "quat option \<Rightarrow> quat option" where
  "normalize_row None = None"
| "normalize_row (Some q) = (if norm4 q = 0 then None else Some (div4 q (norm4 q)))"

text \<open>
  The test \<^verbatim>\<open>np.linalg.norm((-q - q_old)) < np.linalg.norm((q - q_old))\<close> and the
  update \<^verbatim>\<open>q *= -1\<close>.
\<close>

fun flip_test :: "quat option \<Rightarrow> quat option \<Rightarrow> bool" where
  "flip_test (Some q) (Some q_old) = (norm4 (sub4 (neg4 q) q_old) < norm4 (sub4 q q_old))"
| "flip_test _ _ = False"

text \<open>
  The loop \<^verbatim>\<open>for idx, q in enumerate(quat[1:])\<close>: \<open>q\<close> is a view of row
  \<open>idx + 1\<close> and \<open>q_old = quat[idx]\<close> is the row before it as the loop left it, so
  the row just written is carried along.
\<close>

fun resolve_ambiguities :: "quat option \<Rightarrow> quat option list \<Rightarrow> quat option list" where
  "resolve_ambiguities q_old [] = []"
| "resolve_ambiguities q_old (q # rest) =
     (let q' = (if flip_test q q_old then map_option neg4 q else q)
      in q' # resolve_ambiguities q' rest)"

definition continuity_normalize :: "quat option list \<Rightarrow> quat option list" where
  "continuity_normalize quat =
     (case map normalize_row quat of
        [] \<Rightarrow> []
      | q0 # rest \<Rightarrow> q0 # resolve_ambiguities q0 rest)"

subsection \<open>The invariants of the processed rows\<close>

fun unit_row :: "quat option \<Rightarrow> bool" where
  "unit_row None = False"
| "unit_row (Some q) = (norm4 q = 1)"

fun closer_branch :: "quat option \<Rightarrow> quat option \<Rightarrow> bool" where
  "closer_branch (Some q_i) (Some q_j) = (norm4 (sub4 q_j q_i) \<le> norm4 (sub4 (neg4 q_j) q_i))"
| "closer_branch _ _ = False"

fun sign_convention :: "quat option list \<Rightarrow> bool" where
  "sign_convention (a # b # rest) = (closer_branch a b \<and> sign_convention (b # rest))"
| "sign_convention _ = True"


subsection \<open>Vectors and 3x3 matrices\<close>

text \<open>A 3x3 matrix is the triple of its rows; \<open>@\<close> and \<open>.T\<close> of numpy on such matrices.\<close>

definition sub3 :: "vec3 \<Rightarrow> vec3 \<Rightarrow> vec3" where
  "sub3 a b = (case a of (a1, a2, a3) \<Rightarrow> case b of (b1, b2, b3) \<Rightarrow> (a1 - b1, a2 - b2, a3 - b3))"

definition dot3 :: "vec3 \<Rightarrow> vec3 \<Rightarrow> real" where
  "dot3 a b = (case a of (a1, a2, a3) \<Rightarrow> case b of (b1, b2, b3) \<Rightarrow> a1 * b1 + a2 * b2 + a3 * b3)"

definition mat_vec3 :: "mat3 \<Rightarrow> vec3 \<Rightarrow> vec3" where
  "mat_vec3 M v = (case M of (r1, r2, r3) \<Rightarrow> (dot3 r1 v, dot3 r2 v, dot3 r3 v))"

definition transpose3 :: "mat3 \<Rightarrow> mat3" where
  "transpose3 M =
     (case M of ((a, b, c), (d, e, f), (g, h, i)) \<Rightarrow> ((a, d, g), (b, e, h), (c, f, i)))"

definition mat_mul3 :: "mat3 \<Rightarrow> mat3 \<Rightarrow> mat3" where
  "mat_mul3 A B =
     (case A of (r1, r2, r3) \<Rightarrow>
        (mat_vec3 (transpose3 B) r1, mat_vec3 (transpose3 B) r2, mat_vec3 (transpose3 B) r3))"

definition eye3 :: mat3 where
  "eye3 = ((1, 0, 0), (0, 1, 0), (0, 0, 1))"

definition scale3 :: "real \<Rightarrow> vec3 \<Rightarrow> vec3" where
  "scale3 k v = (case v of (x, y, z) \<Rightarrow> (k * x, k * y, k * z))"

definition scale33 :: "real \<Rightarrow> mat3 \<Rightarrow> mat3" where
  "scale33 k M = (case M of (r1, r2, r3) \<Rightarrow> (scale3 k r1, scale3 k r2, scale3 k r3))"

definition sub33 :: "mat3 \<Rightarrow> mat3 \<Rightarrow> mat3" where
  "sub33 A B =
     (case A of (a1, a2, a3) \<Rightarrow> case B of (b1, b2, b3) \<Rightarrow> (sub3 a1 b1, sub3 a2 b2, sub3 a3 b3))"

text \<open>A 3x4 matrix is the triple of its rows; \<^verbatim>\<open>np.hstack\<close> of a 3x1 column and a 3x3 block.\<close>

type_synonym mat34 = "quat \<times> quat \<times> quat"

definition hstack :: "vec3 \<Rightarrow> mat3 \<Rightarrow> mat34" where
  "hstack c M =
     (case c of (c1, c2, c3) \<Rightarrow>
      case M of ((a, b, d), (e, f, g), (h, i, j)) \<Rightarrow>
        ((c1, a, b, d), (c2, e, f, g), (c3, h, i, j)))"

definition dot4 :: "quat \<Rightarrow> quat \<Rightarrow> real" where
  "dot4 p q =
     (case p of (a, b, c, d) \<Rightarrow> case q of (w, x, y, z) \<Rightarrow> a * w + b * x + c * y + d * z)"

definition mat34_vec :: "mat34 \<Rightarrow> quat \<Rightarrow> vec3" where
  "mat34_vec S v = (case S of (r1, r2, r3) \<Rightarrow> (dot4 r1 v, dot4 r2 v, dot4 r3 v))"

subsection \<open>Arrays with a shape\<close>

text \<open>
  The arrays the queries return: a shape and the entries in row-major order, an entry
  \<open>None\<close> being nan.  \<^verbatim>\<open>squeeze()\<close> drops every axis of length one and
  \<^verbatim>\<open>.T\<close> reverses the axes.
\<close>

record ndarray =
  shape :: "nat list"
  entries :: "real option list"

definition squeeze :: "ndarray \<Rightarrow> ndarray" where
  "squeeze a = a\<lparr>shape := filter (\<lambda>d. d \<noteq> 1) (shape a)\<rparr>"

fun indices :: "nat list \<Rightarrow> nat list list" where
  "indices [] = [[]]"
| "indices (d # ds) = concat (map (\<lambda>i. map ((#) i) (indices ds)) [0..<d])"

definition ravel_index :: "nat list \<Rightarrow> nat list \<Rightarrow> nat" where
  "ravel_index shp idx = foldl (\<lambda>acc (d, i). acc * d + i) 0 (zip shp idx)"

definition transpose_T :: "ndarray \<Rightarrow> ndarray" where
  "transpose_T a =
     \<lparr>shape = rev (shape a),
      entries = map (\<lambda>idx. entries a ! ravel_index (shape a) (rev idx)) (indices (rev (shape a)))\<rparr>"

fun flat3 :: "vec3 option \<Rightarrow> real option list" where
  "flat3 None = [None, None, None]"
| "flat3 (Some (x, y, z)) = [Some x, Some y, Some z]"

text \<open>An N x 3 x 1 array from its N columns.\<close>

definition stack_columns :: "vec3 option list \<Rightarrow> ndarray" where
  "stack_columns rows = \<lparr>shape = [length rows, 3, 1], entries = concat (map flat3 rows)\<rparr>"

section \<open>The trajectory\<close>

subsection \<open>The libraries\<close>

text \<open>
  The functions of csaps and pylie are not part of the repository; they are parameters.
  \<open>csaps3\<close> and \<open>csaps4\<close> are \<^verbatim>\<open>csaps(stamps, data.T, smooth=s)\<close> on three and four
  channels: the fit fails with an error or returns a spline, a function of the query time
  and the derivative order \<^verbatim>\<open>nu\<close>.  \<open>from_quat\<close> is
  \<^verbatim>\<open>SO3.from_quat(q, order="wxyz")\<close>, \<open>to_quat\<close> is \<^verbatim>\<open>SO3.to_quat(C).ravel()\<close>
  and \<open>wedge\<close> is \<^verbatim>\<open>SO3.wedge\<close>.
\<close>

type_synonym spline3 = "real \<Rightarrow> nat \<Rightarrow> vec3"
type_synonym spline4 = "real \<Rightarrow> nat \<Rightarrow> quat"

record externals =
  csaps3 :: "real list \<Rightarrow> vec3 list \<Rightarrow> real \<Rightarrow> error + spline3"
  csaps4 :: "real list \<Rightarrow> quat option list \<Rightarrow> real \<Rightarrow> error + spline4"
  from_quat :: "quat option \<Rightarrow> mat3 option"
  to_quat :: "mat3 option \<Rightarrow> quat option"
  wedge :: "vec3 \<Rightarrow> mat3"

subsection \<open>The object\<close>

record trajectory =
  stamps :: "real list"
  raw_position :: "vec3 list"
  raw_quaternion :: "quat option list"
  frame_id :: "string option"
  pos_spline :: spline3
  quat_spline :: spline4
  static_mask :: "bool list"


subsection \<open>Fitting the splines\<close>

text \<open>
  \<^verbatim>\<open>_fit_quaternion_spline\<close> normalizes and flips the rows of the array it is given
  in place, so it returns that array next to the spline: the caller decides which
  array of the object, if any, the argument was.
\<close>

definition fit_position_spline :: "externals \<Rightarrow> real list \<Rightarrow> vec3 list \<Rightarrow> error + spline3" where
  "fit_position_spline L ts pos = csaps3 L ts pos 0.9999"

definition fit_quaternion_spline ::
  "externals \<Rightarrow> real list \<Rightarrow> quat option list \<Rightarrow> error + (quat option list \<times> spline4)" where
  "fit_quaternion_spline L ts quat =
     (let quat' = continuity_normalize quat
      in case csaps4 L ts quat' 0.99999 of
           Inl e \<Rightarrow> Inl e
         | Inr s \<Rightarrow> Inr (quat', s))"

subsection \<open>Python's indexing and rounding\<close>

text \<open>\<^verbatim>\<open>round\<close> on a float rounds a half to the even neighbour.\<close>

definition py_round :: "real \<Rightarrow> int" where
  "py_round x =
     (let f = \<lfloor>x\<rfloor>; r = x - of_int f
      in if r < 1 / 2 then f
         else if 1 / 2 < r then f + 1
         else if even f then f else f + 1)"

text \<open>
  A bound of a slice of a sequence of length \<open>n\<close>: a negative bound counts from the
  end, and both are clipped to the sequence.
\<close>

definition slice_index :: "int \<Rightarrow> int \<Rightarrow> int" where
  "slice_index n k = (if k < 0 then max 0 (k + n) else min k n)"

definition py_slice :: "'a list \<Rightarrow> int \<Rightarrow> int \<Rightarrow> 'a list" where
  "py_slice xs a b =
     (let n = int (length xs); s = slice_index n a; e = slice_index n b
      in take (nat (e - s)) (drop (nat s) xs))"

text \<open>\<^verbatim>\<open>xs[a:b] = v\<close> on an array, and \<^verbatim>\<open>xs[i] = v\<close>, which raises out of range.\<close>

definition fill_slice :: "'a list \<Rightarrow> int \<Rightarrow> int \<Rightarrow> 'a \<Rightarrow> 'a list" where
  "fill_slice xs a b v =
     (let n = int (length xs); s = nat (slice_index n a); e = nat (slice_index n b)
      in map (\<lambda>(k, x). if s \<le> k \<and> k < e then v else x) (zip [0..<length xs] xs))"

definition set_item :: "'a list \<Rightarrow> int \<Rightarrow> 'a \<Rightarrow> error + 'a list" where
  "set_item xs i v =
     (let n = int (length xs)
      in if 0 \<le> i \<and> i < n then Inr (xs[nat i := v])
         else if - n \<le> i \<and> i < 0 then Inr (xs[nat (i + n) := v])
         else Inl IndexError)"

subsection \<open>The static detector\<close>

text \<open>
  \<^verbatim>\<open>np.cov(pos.T)\<close> of m rows: the three channels are the variables, the rows the
  observations, and the sums are divided by m - 1.  With fewer than two rows numpy
  divides by zero and returns nan.
\<close>

definition mean :: "real list \<Rightarrow> real" where
  "mean xs = sum_list xs / real (length xs)"

definition np_cov :: "vec3 list \<Rightarrow> mat3 option" where
  "np_cov pos =
     (if length pos \<le> 1 then None
      else
        let xs = map fst pos; ys = map (fst \<circ> snd) pos; zs = map (snd \<circ> snd) pos;
            dx = map (\<lambda>v. v - mean xs) xs;
            dy = map (\<lambda>v. v - mean ys) ys;
            dz = map (\<lambda>v. v - mean zs) zs;
            fact = real (length pos) - 1;
            c = (\<lambda>a b. sum_list (map2 (*) a b) / fact)
        in Some ((c dx dx, c dx dy, c dx dz),
                 (c dy dx, c dy dy, c dy dz),
                 (c dz dx, c dz dy, c dz dz)))"

definition trace3 :: "mat3 \<Rightarrow> real" where
  "trace3 M = (case M of ((a, b, c), (d, e, f), (g, h, i)) \<Rightarrow> a + e + i)"

text \<open>\<^verbatim>\<open>np.trace(pos_cov) < cov_threshold\<close>; false when the trace is nan.\<close>

fun trace_below :: "mat3 option \<Rightarrow> real \<Rightarrow> bool" where
  "trace_below None thr = False"
| "trace_below (Some C) thr = (trace3 C < thr)"

text \<open>
  The test of one window, rows \<open>[i - h, i + h)\<close> of the raw positions, and the body of
  the loop over \<^verbatim>\<open>range(window_half_width, self.stamps.size - window_half_width)\<close>,
  with \<open>h\<close> the half width, \<open>n\<close> the number of stamps, and the indices still to visit.
\<close>

definition window_static :: "vec3 list \<Rightarrow> int \<Rightarrow> real \<Rightarrow> int \<Rightarrow> bool" where
  "window_static pos h thr i = trace_below (np_cov (py_slice pos (i - h) (i + h))) thr"

fun static_loop ::
  "vec3 list \<Rightarrow> int \<Rightarrow> real \<Rightarrow> int \<Rightarrow> int list \<Rightarrow> bool list \<Rightarrow> error + bool list" where
  "static_loop pos h thr n [] is_static = Inr is_static"
| "static_loop pos h thr n (i # rest) is_static =
     (if window_static pos h thr i then
        (case set_item is_static i True of
           Inl e \<Rightarrow> Inl e
         | Inr m \<Rightarrow>
             static_loop pos h thr n rest
               (if i = h then fill_slice m 0 h True
                else if i = n - h - 1 then fill_slice m i (int (length m)) True
                else m))
      else static_loop pos h thr n rest is_static)"

text \<open>
  \<^verbatim>\<open>get_static_mask\<close> reads \<^verbatim>\<open>self.stamps\<close> and \<^verbatim>\<open>self.raw_position\<close>.
  On no stamps \<^verbatim>\<open>self.stamps[-1]\<close> raises; when the first and the last stamp are
  equal the frequency is infinite and \<^verbatim>\<open>round\<close> raises (OverflowError on an
  infinity, ValueError on the nan that a zero window size gives).
\<close>

definition get_static_mask :: "real list \<Rightarrow> vec3 list \<Rightarrow> real \<Rightarrow> real \<Rightarrow> error + bool list" where
  "get_static_mask ts pos window_size std_dev_threshold =
     (if ts = [] then Inl IndexError
      else
        let n = int (length ts);
            period = (last ts - hd ts) / real (length ts)
        in if period = 0 then (if window_size = 0 then Inl ValueError else Inl OverflowError)
           else
             let freq = 1 / period;
                 window_half_width = py_round (window_size / 2 * freq);
                 cov_threshold = std_dev_threshold\<^sup>2
             in static_loop pos window_half_width cov_threshold n
                  [window_half_width..n - window_half_width - 1]
                  (replicate (length ts) False))"

subsection \<open>Construction\<close>

text \<open>
  \<^verbatim>\<open>__init__\<close>: \<^verbatim>\<open>self.raw_quaternion\<close> is the array that
  \<^verbatim>\<open>_fit_quaternion_spline\<close> normalizes in place; an exception leaves no object.
\<close>

definition init ::
  "externals \<Rightarrow> real list \<Rightarrow> vec3 list \<Rightarrow> quat list \<Rightarrow> string option \<Rightarrow> error + trajectory" where
  "init L ts position_data quaternion_data fid =
     (case fit_position_spline L ts position_data of
        Inl e \<Rightarrow> Inl e
      | Inr ps \<Rightarrow>
     (case fit_quaternion_spline L ts (map Some quaternion_data) of
        Inl e \<Rightarrow> Inl e
      | Inr (quat', qs) \<Rightarrow>
     (case get_static_mask ts position_data 1 0.0008 of
        Inl e \<Rightarrow> Inl e
      | Inr flags \<Rightarrow>
          Inr \<lparr>stamps = ts, raw_position = position_data, raw_quaternion = quat',
               frame_id = fid, pos_spline = ps, quat_spline = qs, static_mask = flags\<rparr>)))"


subsection \<open>Kinematic queries\<close>

text \<open>
  The spline called on N query times returns one column per time; after \<^verbatim>\<open>.T\<close>
  there is one row per time, which is the list below.
\<close>

definition position :: "trajectory \<Rightarrow> real list \<Rightarrow> vec3 list" where
  "position self query = map (\<lambda>t. pos_spline self t 0) query"

definition velocity :: "trajectory \<Rightarrow> real list \<Rightarrow> vec3 list" where
  "velocity self query = map (\<lambda>t. pos_spline self t 1) query"

definition acceleration :: "trajectory \<Rightarrow> real list \<Rightarrow> vec3 list" where
  "acceleration self query = map (\<lambda>t. pos_spline self t 2) query"

definition quaternion :: "trajectory \<Rightarrow> real list \<Rightarrow> quat option list" where
  "quaternion self query = map (\<lambda>t. normalize_row (Some (quat_spline self t 0))) query"

definition rot_matrix :: "externals \<Rightarrow> trajectory \<Rightarrow> real list \<Rightarrow> mat3 option list" where
  "rot_matrix L self query = map (from_quat L) (quaternion self query)"

text \<open>
  \<open>rot_matrix\<close> builds its array from the list of the matrices, so for no query time
  the array is \<^verbatim>\<open>np.array([])\<close>, of shape (0,) and not (0, 3, 3).  On it
  \<^verbatim>\<open>np.transpose(C_ab, axes=[0, 2, 1])\<close> raises ("axes don't match array"), and so
  does the product \<open>@\<close> with a 3x3 matrix on either side.
\<close>

definition transpose_021 :: "mat3 option list \<Rightarrow> error + mat3 option list" where
  "transpose_021 C = (if C = [] then Inl ValueError else Inr (map (map_option transpose3) C))"

definition matmul_each_right :: "mat3 option list \<Rightarrow> mat3 \<Rightarrow> error + mat3 option list" where
  "matmul_each_right C B =
     (if C = [] then Inl ValueError else Inr (map (map_option (\<lambda>C'. mat_mul3 C' B)) C))"

definition matmul_each_left :: "mat3 \<Rightarrow> mat3 option list \<Rightarrow> error + mat3 option list" where
  "matmul_each_left A C =
     (if C = [] then Inl ValueError else Inr (map (map_option (\<lambda>C'. mat_mul3 A C')) C))"

text \<open>
  \<^verbatim>\<open>accelerometer\<close>: \<^verbatim>\<open>g_a\<close> is \<open>None\<close> when the caller gives no gravity
  vector.  The transposition raises on no query time.  The batched product of an
  N x 3 x 3 array with an N x 3 x 1 array is the product of each matrix with its column;
  a nan matrix gives a nan column.
\<close>

definition accelerometer ::
  "externals \<Rightarrow> trajectory \<Rightarrow> real list \<Rightarrow> vec3 option \<Rightarrow> error + ndarray" where
  "accelerometer L self query g_a =
     (let g = (case g_a of None \<Rightarrow> (0, 0, - 9.80665) | Some g' \<Rightarrow> g');
          a_zwa_a = map (\<lambda>t. pos_spline self t 2) query;
          C_ab = rot_matrix L self query
      in case transpose_021 C_ab of
           Inl e \<Rightarrow> Inl e
         | Inr C_ba \<Rightarrow>
             Inr (squeeze (stack_columns
                    (map2 (\<lambda>C a. map_option (\<lambda>C'. mat_vec3 C' (sub3 a g)) C) C_ba a_zwa_a))))"

text \<open>
  \<^verbatim>\<open>angular_velocity\<close>: the matrix
  \<^verbatim>\<open>np.hstack((-2 * e, 2 * (eta[i] * np.eye(3) - SO3.wedge(e))))\<close> of one query time.
\<close>

definition S_of :: "externals \<Rightarrow> quat \<Rightarrow> mat34" where
  "S_of L q =
     (case q of (eta, e1, e2, e3) \<Rightarrow>
        hstack (scale3 (- 2) (e1, e2, e3))
          (scale33 2 (sub33 (scale33 eta eye3) (wedge L (e1, e2, e3)))))"

definition angular_velocity :: "externals \<Rightarrow> trajectory \<Rightarrow> real list \<Rightarrow> ndarray" where
  "angular_velocity L self query =
     (let q = map (\<lambda>t. normalize_row (Some (quat_spline self t 0))) query;
          q_dot = map (\<lambda>t. quat_spline self t 1) query;
          omega = map2 (\<lambda>q_i qd. map_option (\<lambda>q'. mat34_vec (S_of L q') qd) q_i) q q_dot
      in squeeze (stack_columns omega))"

definition body_velocity :: "externals \<Rightarrow> trajectory \<Rightarrow> real list \<Rightarrow> error + ndarray" where
  "body_velocity L self query =
     (let v_zw_a = velocity self query;
          C_ab = rot_matrix L self query
      in case transpose_021 C_ab of
           Inl e \<Rightarrow> Inl e
         | Inr C_ba \<Rightarrow>
             Inr (transpose_T (squeeze (stack_columns
                    (map2 (\<lambda>C v. map_option (\<lambda>C'. mat_vec3 C' v) C) C_ba v_zw_a)))))"

subsection \<open>The static flag at a query time\<close>

text \<open>
  Modelled from the spec: \<^verbatim>\<open>scipy.interpolate.interp1d\<close> is not under src/.  The
  spec has it as a "1-D nearest-neighbor search over timestamps, extrapolating at the
  boundaries"; the definition is the search scipy documents for
  \<^verbatim>\<open>kind="nearest", bounds_error=False, fill_value="extrapolate"\<close>: the points are
  sorted by x (a stable sort), the query is located among the midpoints of neighbouring
  x with \<^verbatim>\<open>searchsorted(side="left")\<close>, the index is clipped to the points, and the
  y of that point is returned.
\<close>

definition searchsorted_left :: "real list \<Rightarrow> real \<Rightarrow> nat" where
  "searchsorted_left a v = length (takeWhile (\<lambda>b. b < v) a)"

text \<open>\<^verbatim>\<open>x_bds = x / 2.0; x_bds = x_bds[1:] + x_bds[:-1]\<close>.\<close>

definition midpoints :: "real list \<Rightarrow> real list" where
  "midpoints xs = map2 (\<lambda>b a. b / 2 + a / 2) (tl xs) (butlast xs)"

definition interp1d_nearest :: "real list \<Rightarrow> nat list \<Rightarrow> real \<Rightarrow> nat" where
  "interp1d_nearest x y x_new =
     (let ps = sort_key fst (zip x y);
          xs = map fst ps;
          ys = map snd ps;
          x_bds = midpoints xs;
          k = min (searchsorted_left x_bds x_new) (length xs - 1)
      in ys ! k)"

text \<open>
  \<^verbatim>\<open>is_static\<close>: interp1d refuses an empty x, and indexing the mask raises on an
  index outside it.
\<close>

definition is_static :: "trajectory \<Rightarrow> real list \<Rightarrow> error + bool list" where
  "is_static self query =
     (if stamps self = [] then Inl ValueError
      else
        let indexes = [0..<length (stamps self)];
            nearest_time_idx = map (interp1d_nearest (stamps self) indexes) query
        in if list_all (\<lambda>k. k < length (static_mask self)) nearest_time_idx
           then Inr (map (\<lambda>k. static_mask self ! k) nearest_time_idx)
           else Inl IndexError)"

subsection \<open>Frame re-basing\<close>

text \<open>
  The two methods change the object and return nothing: the result is the object after
  the call, next to the exception if one was raised (the product with the rotation
  matrices raises when the object has no stamps).  The array handed to
  \<^verbatim>\<open>_fit_quaternion_spline\<close> is a fresh one (\<^verbatim>\<open>np.array([...])\<close>), so the rows it
  rewrites in place belong to no attribute of the object.
\<close>

definition rotate_body_frame :: "externals \<Rightarrow> trajectory \<Rightarrow> mat3 \<Rightarrow> trajectory \<times> error option" where
  "rotate_body_frame L self C_bm =
     (let C_wm = rot_matrix L self (stamps self)
      in case matmul_each_right C_wm (transpose3 C_bm) of
           Inl e \<Rightarrow> (self, Some e)
         | Inr C_wb \<Rightarrow>
             let q_wb = map (to_quat L) C_wb
             in (case fit_quaternion_spline L (stamps self) q_wb of
                   Inl e \<Rightarrow> (self, Some e)
                 | Inr (q_wb', s) \<Rightarrow> (self\<lparr>quat_spline := s\<rparr>, None)))"

definition rotate_world_frame :: "externals \<Rightarrow> trajectory \<Rightarrow> mat3 \<Rightarrow> trajectory \<times> error option" where
  "rotate_world_frame L self C_wn =
     (let C_wm = rot_matrix L self (stamps self)
      in case matmul_each_left (transpose3 C_wn) C_wm of
           Inl e \<Rightarrow> (self, Some e)
         | Inr C_nm \<Rightarrow>
             let q_nm = map (to_quat L) C_nm;
                 r_zw_w = position self (stamps self);
                 r_zw_n = map (mat_vec3 (transpose3 C_wn)) r_zw_w
             in (case fit_position_spline L (stamps self) r_zw_n of
                   Inl e \<Rightarrow> (self, Some e)
                 | Inr ps \<Rightarrow>
                     (case fit_quaternion_spline L (stamps self) q_nm of
                        Inl e \<Rightarrow> (self\<lparr>pos_spline := ps\<rparr>, Some e)
                      | Inr (q_nm', qs) \<Rightarrow>
                          (self\<lparr>pos_spline := ps, quat_spline := qs\<rparr>, None))))"

subsection \<open>Loading from recorded messages\<close>

record pose_stamped =
  stamp_sec :: real
  position_x :: real
  position_y :: real
  position_z :: real
  orientation_x :: real
  orientation_y :: real
  orientation_z :: real
  orientation_w :: real

definition from_ros :: "externals \<Rightarrow> pose_stamped list \<Rightarrow> string option \<Rightarrow> error + trajectory" where
  "from_ros L pose_data fid =
     init L (map stamp_sec pose_data)
       (map (\<lambda>p. (position_x p, position_y p, position_z p)) pose_data)
       (map (\<lambda>p. (orientation_w p, orientation_x p, orientation_y p, orientation_z p)) pose_data)
       fid"

text \<open>\<^verbatim>\<open>p in s\<close> on strings.\<close>

fun starts_with :: "string \<Rightarrow> string \<Rightarrow> bool" where
  "starts_with [] s = True"
| "starts_with (p # ps) [] = False"
| "starts_with (p # ps) (c # cs) = (p = c \<and> starts_with ps cs)"

fun py_in :: "string \<Rightarrow> string \<Rightarrow> bool" where
  "py_in p [] = (p = [])"
| "py_in p (c # cs) = (starts_with p (c # cs) \<or> py_in p cs)"

text \<open>
  rosbag and the repository's \<^verbatim>\<open>bag_to_list\<close> (in \<^verbatim>\<open>utils\<close>, not under src/) are
  parameters: opening a bag file, the topic names of
  \<^verbatim>\<open>bag.get_type_and_topic_info()[1].keys()\<close>, and the messages of a list of topics.
  \<^verbatim>\<open>bagfile\<close> is a path or an open bag.
\<close>

datatype 'b bagfile = Path string | Bag 'b

record 'b rosbag_api =
  open_bag :: "string \<Rightarrow> error + 'b"
  bag_topics :: "'b \<Rightarrow> string list"
  bag_to_list :: "'b \<Rightarrow> string list \<Rightarrow> error + pose_stamped list"

definition from_bag ::
  "externals \<Rightarrow> 'b rosbag_api \<Rightarrow> 'b bagfile \<Rightarrow> string \<Rightarrow> string option \<Rightarrow> error + trajectory" where
  "from_bag L R bagfile body_id topic =
     (let search_str = ''vrpn_client_node/'' @ body_id @ ''/pose''
      in case (case bagfile of Bag b \<Rightarrow> Inr b | Path f \<Rightarrow> open_bag R f) of
           Inl e \<Rightarrow> Inl e
         | Inr bag \<Rightarrow>
             let topics = bag_topics R bag;
                 vrpn_topics = filter (py_in search_str) topics;
                 vrpn_topics' =
                   (if length vrpn_topics > 1
                    then filter (py_in (body_id @ ''/'' @ search_str)) vrpn_topics
                    else vrpn_topics)
             in if length vrpn_topics' > 1 then Inl ValueError
                else (case bag_to_list R bag vrpn_topics' of
                        Inl e \<Rightarrow> Inl e
                      | Inr pose_data \<Rightarrow> from_ros L pose_data (Some body_id)))"


section \<open>The queries at one time, in the words of the specification\<close>

text \<open>
  The specification describes each query per query time.  These definitions follow its
  words; the theorems below compare them with the array computations above.
  \<open>rot_matrix_at\<close> is the rotation matrix of the re-normalized order-0 value of the
  orientation spline.
\<close>

definition rot_matrix_at :: "externals \<Rightarrow> trajectory \<Rightarrow> real \<Rightarrow> mat3 option" where
  "rot_matrix_at L self t = from_quat L (normalize_row (Some (quat_spline self t 0)))"

text \<open>The transpose of the rotation matrix applied to the acceleration minus gravity.\<close>

definition accelerometer_at :: "externals \<Rightarrow> trajectory \<Rightarrow> vec3 \<Rightarrow> real \<Rightarrow> vec3 option" where
  "accelerometer_at L self g t =
     map_option (\<lambda>C. mat_vec3 (transpose3 C) (sub3 (pos_spline self t 2) g)) (rot_matrix_at L self t)"

text \<open>The transpose of the rotation matrix applied to the velocity.\<close>

definition body_velocity_at :: "externals \<Rightarrow> trajectory \<Rightarrow> real \<Rightarrow> vec3 option" where
  "body_velocity_at L self t =
     map_option (\<lambda>C. mat_vec3 (transpose3 C) (pos_spline self t 1)) (rot_matrix_at L self t)"

text \<open>
  The angular velocity of one query time, written out.  \<open>(w, x, y, z)\<close> is the order-0
  value of the orientation spline, \<open>n\<close> its Euclidean length, \<open>(eta, e1, e2, e3)\<close> the
  value divided by \<open>n\<close>, \<open>(d0, d1, d2, d3)\<close> the first derivative and \<open>W\<close> the skew
  matrix of \<open>(e1, e2, e3)\<close>.  Row \<open>r\<close> of \<open>S = [- 2 eps, 2 (eta I - W)]\<close> is
  \<open>- 2 e_r\<close> followed by row \<open>r\<close> of \<open>2 (eta I - W)\<close>, and the result is \<open>S\<close> times the
  derivative; a value of length zero has no normalization (nan).
\<close>

definition angular_velocity_at :: "externals \<Rightarrow> trajectory \<Rightarrow> real \<Rightarrow> vec3 option" where
  "angular_velocity_at L self t =
     (case quat_spline self t 0 of (w, x, y, z) \<Rightarrow>
      case quat_spline self t 1 of (d0, d1, d2, d3) \<Rightarrow>
        let n = sqrt (w\<^sup>2 + x\<^sup>2 + y\<^sup>2 + z\<^sup>2)
        in if n = 0 then None
           else
             let eta = w / n; e1 = x / n; e2 = y / n; e3 = z / n
             in case wedge L (e1, e2, e3) of
                  ((w11, w12, w13), (w21, w22, w23), (w31, w32, w33)) \<Rightarrow>
                    Some (- 2 * e1 * d0 + 2 * (eta - w11) * d1 + 2 * (0 - w12) * d2
                            + 2 * (0 - w13) * d3,
                          - 2 * e2 * d0 + 2 * (0 - w21) * d1 + 2 * (eta - w22) * d2
                            + 2 * (0 - w23) * d3,
                          - 2 * e3 * d0 + 2 * (0 - w31) * d1 + 2 * (0 - w32) * d2
                            + 2 * (eta - w33) * d3))"

text \<open>The shape of N rows of three entries after \<^verbatim>\<open>squeeze()\<close>.\<close>

definition rows_shape :: "nat \<Rightarrow> nat list" where
  "rows_shape n = (if n = 1 then [3] else [n, 3])"

text \<open>Sample \<open>k\<close> is a sample of \<open>ts\<close> nearest to the time \<open>t\<close>.\<close>

fun nearest_sample :: "real list \<Rightarrow> real \<Rightarrow> nat \<Rightarrow> bool" where
  "nearest_sample ts t k = (k < length ts \<and> list_all (\<lambda>s. \<bar>ts ! k - t\<bar> \<le> \<bar>s - t\<bar>) ts)"

section \<open>The continuity rule and the re-basing products, written out\<close>

text \<open>
  A row scaled to unit length, and the rule of the later row: given the processed row
  before it, the later row is multiplied by -1 when that strictly reduces the distance
  to the processed row.
\<close>

definition unit4 :: "quat \<Rightarrow> quat" where
  "unit4 q =
     (case q of (w, x, y, z) \<Rightarrow>
        (w / sqrt (w\<^sup>2 + x\<^sup>2 + y\<^sup>2 + z\<^sup>2), x / sqrt (w\<^sup>2 + x\<^sup>2 + y\<^sup>2 + z\<^sup>2),
         y / sqrt (w\<^sup>2 + x\<^sup>2 + y\<^sup>2 + z\<^sup>2), z / sqrt (w\<^sup>2 + x\<^sup>2 + y\<^sup>2 + z\<^sup>2)))"

definition dist4 :: "quat \<Rightarrow> quat \<Rightarrow> real" where
  "dist4 p q =
     (case p of (a, b, c, d) \<Rightarrow> case q of (w, x, y, z) \<Rightarrow>
        sqrt ((a - w)\<^sup>2 + (b - x)\<^sup>2 + (c - y)\<^sup>2 + (d - z)\<^sup>2))"

definition minus4 :: "quat \<Rightarrow> quat" where
  "minus4 q = (case q of (w, x, y, z) \<Rightarrow> (- w, - x, - y, - z))"

definition flip_rule :: "quat \<Rightarrow> quat \<Rightarrow> quat" where
  "flip_rule prev q = (if dist4 (minus4 q) prev < dist4 q prev then minus4 q else q)"

text \<open>
  The rows after the normalization, in these words: the first row scaled to unit length,
  and each later row scaled to unit length and put through the rule against the row the
  pass has just produced.
\<close>

fun processed :: "quat \<Rightarrow> quat list \<Rightarrow> quat list" where
  "processed prev [] = []"
| "processed prev (q # rest) = flip_rule prev (unit4 q) # processed (flip_rule prev (unit4 q)) rest"

definition normalized_rows :: "quat list \<Rightarrow> quat list" where
  "normalized_rows quat =
     (case quat of [] \<Rightarrow> [] | q0 # rest \<Rightarrow> unit4 q0 # processed (unit4 q0) rest)"

text \<open>
  The products of the two re-basing operations, entry by entry: the transpose of
  \<open>C_wn\<close> times a rotation \<open>C\<close>, the transpose of \<open>C_wn\<close> applied to a position
  \<open>r\<close>, and a rotation \<open>C\<close> times the transpose of \<open>C_bm\<close>.
\<close>

definition new_world_rotation :: "mat3 \<Rightarrow> mat3 \<Rightarrow> mat3" where
  "new_world_rotation C_wn C =
     (case C_wn of ((a11, a12, a13), (a21, a22, a23), (a31, a32, a33)) \<Rightarrow>
      case C of ((c11, c12, c13), (c21, c22, c23), (c31, c32, c33)) \<Rightarrow>
        ((a11 * c11 + a21 * c21 + a31 * c31, a11 * c12 + a21 * c22 + a31 * c32,
          a11 * c13 + a21 * c23 + a31 * c33),
         (a12 * c11 + a22 * c21 + a32 * c31, a12 * c12 + a22 * c22 + a32 * c32,
          a12 * c13 + a22 * c23 + a32 * c33),
         (a13 * c11 + a23 * c21 + a33 * c31, a13 * c12 + a23 * c22 + a33 * c32,
          a13 * c13 + a23 * c23 + a33 * c33)))"

definition new_world_position :: "mat3 \<Rightarrow> vec3 \<Rightarrow> vec3" where
  "new_world_position C_wn r =
     (case C_wn of ((a11, a12, a13), (a21, a22, a23), (a31, a32, a33)) \<Rightarrow>
      case r of (r1, r2, r3) \<Rightarrow>
        (a11 * r1 + a21 * r2 + a31 * r3,
         a12 * r1 + a22 * r2 + a32 * r3,
         a13 * r1 + a23 * r2 + a33 * r3))"

definition new_body_rotation :: "mat3 \<Rightarrow> mat3 \<Rightarrow> mat3" where
  "new_body_rotation C C_bm =
     (case C of ((c11, c12, c13), (c21, c22, c23), (c31, c32, c33)) \<Rightarrow>
      case C_bm of ((b11, b12, b13), (b21, b22, b23), (b31, b32, b33)) \<Rightarrow>
        ((c11 * b11 + c12 * b12 + c13 * b13, c11 * b21 + c12 * b22 + c13 * b23,
          c11 * b31 + c12 * b32 + c13 * b33),
         (c21 * b11 + c22 * b12 + c23 * b13, c21 * b21 + c22 * b22 + c23 * b23,
          c21 * b31 + c22 * b32 + c23 * b33),
         (c31 * b11 + c32 * b12 + c33 * b13, c31 * b21 + c32 * b22 + c33 * b23,
          c31 * b31 + c32 * b32 + c33 * b33)))"

section \<open>The static mask in closed form\<close>

text \<open>
  The half width \<^verbatim>\<open>round(window_size / 2 * freq)\<close> of \<open>get_static_mask\<close>, and the flag
  of index \<open>k\<close> among \<open>n\<close> samples that the loop leaves behind: the test of its own
  window inside \<open>[h, n - h)\<close>; before it, the test of the first window; after it, the test
  of the last window, unless that window is the first one as well.
\<close>

definition half_width :: "real list \<Rightarrow> real \<Rightarrow> int" where
  "half_width ts window_size =
     py_round (window_size / 2 * (1 / ((last ts - hd ts) / real (length ts))))"

definition expected_flag :: "vec3 list \<Rightarrow> int \<Rightarrow> real \<Rightarrow> int \<Rightarrow> int \<Rightarrow> bool" where
  "expected_flag pos h thr n k =
     (if h \<le> k \<and> k < n - h then window_static pos h thr k
      else if k < h then h < n - h \<and> window_static pos h thr h
      else h < n - h - 1 \<and> window_static pos h thr (n - h - 1))"

text \<open>The flags when the loop is about to visit index \<open>j\<close>, short of the last index.\<close>

definition partial_flag :: "vec3 list \<Rightarrow> int \<Rightarrow> real \<Rightarrow> int \<Rightarrow> int \<Rightarrow> int \<Rightarrow> bool" where
  "partial_flag pos h thr n j k =
     (if h \<le> k \<and> k < j then window_static pos h thr k
      else if k < h then h < j \<and> window_static pos h thr h
      else False)"

text \<open>
  The flag of index \<open>k\<close> in the words of the specification: inside \<open>[h, n - h)\<close> the test
  of its own window; the indices \<open>[0, h)\<close> are marked when the window at \<open>h\<close> is static,
  the indices from \<open>n - h - 1\<close> to the end when the window at \<open>n - h - 1\<close> is static; every
  other index stays unmarked.
\<close>

definition claimed_flag :: "vec3 list \<Rightarrow> int \<Rightarrow> real \<Rightarrow> int \<Rightarrow> int \<Rightarrow> bool" where
  "claimed_flag pos h thr n k =
     (if h \<le> k \<and> k < n - h then window_static pos h thr k
      else (k < h \<and> h < n - h \<and> window_static pos h thr h) \<or>
           (n - h \<le> k \<and> h < n - h \<and> window_static pos h thr (n - h - 1)))"

section \<open>The continuity normalizer\<close>

lemma norm4_neg4: "norm4 (neg4 q) = norm4 q"
  by (cases q) (simp add: norm4_def neg4_def)

lemma neg4_neg4: "neg4 (neg4 q) = q"
  by (cases q) (simp add: neg4_def)

lemma norm4_zero_iff: "norm4 q = 0 \<longleftrightarrow> q = (0, 0, 0, 0)"
proof (cases q)
  case (fields w x y z)
  have "w\<^sup>2 + x\<^sup>2 + y\<^sup>2 + z\<^sup>2 = 0 \<longleftrightarrow> w = 0 \<and> x = 0 \<and> y = 0 \<and> z = 0"
  proof
    assume h: "w\<^sup>2 + x\<^sup>2 + y\<^sup>2 + z\<^sup>2 = 0"
    have "0 \<le> w\<^sup>2" "0 \<le> x\<^sup>2" "0 \<le> y\<^sup>2" "0 \<le> z\<^sup>2" by simp_all
    with h have "w\<^sup>2 = 0 \<and> x\<^sup>2 = 0 \<and> y\<^sup>2 = 0 \<and> z\<^sup>2 = 0" by linarith
    then show "w = 0 \<and> x = 0 \<and> y = 0 \<and> z = 0" by simp
  qed simp
  with fields show ?thesis by (simp add: norm4_def)
qed

lemma norm4_div4: "norm4 q \<noteq> 0 \<Longrightarrow> norm4 (div4 q (norm4 q)) = 1"
proof (cases q)
  case (fields w x y z)
  assume nz: "norm4 q \<noteq> 0"
  define s where "s = w\<^sup>2 + x\<^sup>2 + y\<^sup>2 + z\<^sup>2"
  have s0: "0 \<le> s" by (simp add: s_def)
  have n: "norm4 q = sqrt s" using fields by (simp add: norm4_def s_def)
  with nz have sp: "0 < s" using s0 by (cases "s = 0") auto
  have "(w / sqrt s)\<^sup>2 + (x / sqrt s)\<^sup>2 + (y / sqrt s)\<^sup>2 + (z / sqrt s)\<^sup>2
        = (w\<^sup>2 + x\<^sup>2 + y\<^sup>2 + z\<^sup>2) / (sqrt s)\<^sup>2"
    by (simp only: power_divide add_divide_distrib)
  also have "\<dots> = s / s" using s0 by (simp only: real_sqrt_pow2 s_def)
  also have "\<dots> = 1" using sp by simp
  finally have "(w / sqrt s)\<^sup>2 + (x / sqrt s)\<^sup>2 + (y / sqrt s)\<^sup>2 + (z / sqrt s)\<^sup>2 = 1" .
  then show ?thesis using fields n by (simp add: norm4_def div4_def)
qed

lemma unit_row_flip: "unit_row q \<Longrightarrow> unit_row (map_option neg4 q)"
  by (cases q) (simp_all add: norm4_neg4)

lemma resolve_ambiguities_unit:
  "list_all unit_row rest \<Longrightarrow> list_all unit_row (resolve_ambiguities q_old rest)"
  by (induction rest arbitrary: q_old) (simp_all add: Let_def unit_row_flip)

text \<open>
  Each row the loop writes is on the closer sign branch of the row before it: a flip
  happens exactly when the flipped row is strictly closer, and flipping swaps the two
  distances.
\<close>

lemma resolve_ambiguities_sign:
  "unit_row q_old \<Longrightarrow> list_all unit_row rest \<Longrightarrow>
   sign_convention (q_old # resolve_ambiguities q_old rest)"
proof (induction rest arbitrary: q_old)
  case Nil
  then show ?case by simp
next
  case (Cons q rest)
  obtain a where a: "q_old = Some a" using Cons.prems(1) by (cases q_old) auto
  obtain b where b: "q = Some b" using Cons.prems(2) by (cases q) auto
  let ?q' = "if flip_test q q_old then map_option neg4 q else q"
  have u: "unit_row ?q'" using Cons.prems(2) by (simp add: unit_row_flip)
  have c: "closer_branch q_old ?q'"
    using a b by (auto simp: neg4_neg4)
  have "sign_convention (?q' # resolve_ambiguities ?q' rest)"
    using Cons.IH [OF u] Cons.prems(2) by simp
  with c show ?case by (simp add: Let_def)
qed

text \<open>
  The code's norm, difference and negation are the written-out distance and sign, and a
  non-zero row is normalized to its unit multiple; so the pass computes \<open>normalized_rows\<close>.
\<close>

lemma dist4_norm4: "dist4 p q = norm4 (sub4 p q)"
  by (cases p; cases q) (simp add: dist4_def norm4_def sub4_def)

lemma minus4_neg4: "minus4 q = neg4 q"
  by (cases q) (simp add: minus4_def neg4_def)

lemma unit4_div4: "unit4 q = div4 q (norm4 q)"
  by (cases q) (simp add: unit4_def div4_def norm4_def)

lemma normalize_row_unit4: "q \<noteq> (0, 0, 0, 0) \<Longrightarrow> normalize_row (Some q) = Some (unit4 q)"
  by (simp add: norm4_zero_iff unit4_div4)

lemma flip_rule_test:
  "flip_rule prev q = (if flip_test (Some q) (Some prev) then neg4 q else q)"
  by (simp add: flip_rule_def dist4_norm4 minus4_neg4)

lemma resolve_ambiguities_processed:
  "(0, 0, 0, 0) \<notin> set rest \<Longrightarrow>
   resolve_ambiguities (Some prev) (map normalize_row (map Some rest))
     = map Some (processed prev rest)"
proof (induction rest arbitrary: prev)
  case Nil
  then show ?case by simp
next
  case (Cons q rest)
  then have nz: "q \<noteq> (0, 0, 0, 0)" and r: "(0, 0, 0, 0) \<notin> set rest" by auto
  have n: "normalize_row (Some q) = Some (unit4 q)" using normalize_row_unit4 [OF nz] .
  have "resolve_ambiguities (Some prev) (map normalize_row (map Some (q # rest)))
          = resolve_ambiguities (Some prev) (Some (unit4 q) # map normalize_row (map Some rest))"
    by (simp add: n del: normalize_row.simps)
  also have "\<dots> = Some (flip_rule prev (unit4 q))
          # resolve_ambiguities (Some (flip_rule prev (unit4 q))) (map normalize_row (map Some rest))"
    by (simp add: flip_rule_test Let_def del: flip_test.simps normalize_row.simps)
  also have "\<dots> = map Some (processed prev (q # rest))"
    using Cons.IH [OF r, of "flip_rule prev (unit4 q)"] by simp
  finally show ?case .
qed

lemma continuity_normalize_rows:
  "(0, 0, 0, 0) \<notin> set quat \<Longrightarrow>
   continuity_normalize (map Some quat) = map Some (normalized_rows quat)"
proof (cases quat)
  case Nil
  then show ?thesis by (simp add: continuity_normalize_def normalized_rows_def)
next
  case (Cons q0 rest)
  assume "(0, 0, 0, 0) \<notin> set quat"
  with Cons have nz: "q0 \<noteq> (0, 0, 0, 0)" and r: "(0, 0, 0, 0) \<notin> set rest" by auto
  have "continuity_normalize (map Some quat)
          = Some (unit4 q0) # resolve_ambiguities (Some (unit4 q0)) (map normalize_row (map Some rest))"
    using Cons normalize_row_unit4 [OF nz] by (simp add: continuity_normalize_def)
  then show ?thesis
    using resolve_ambiguities_processed [OF r] Cons by (simp add: normalized_rows_def)
qed

lemma processed_step:
  "i < length rest \<Longrightarrow>
   processed prev rest ! i = flip_rule ((prev # processed prev rest) ! i) (unit4 (rest ! i))"
proof (induction rest arbitrary: prev i)
  case Nil
  then show ?case by simp
next
  case (Cons q rest)
  show ?case
  proof (cases i)
    case 0
    then show ?thesis by simp
  next
    case (Suc j)
    with Cons.prems have "j < length rest" by simp
    from Cons.IH [OF this, of "flip_rule prev (unit4 q)"] Suc show ?thesis by simp
  qed
qed

lemma normalized_rows_step:
  "Suc i < length quat \<Longrightarrow>
   normalized_rows quat ! Suc i = flip_rule (normalized_rows quat ! i) (unit4 (quat ! Suc i))"
  by (cases quat) (simp_all add: normalized_rows_def processed_step)

lemma length_processed: "length (processed prev rest) = length rest"
  by (induction rest arbitrary: prev) simp_all

lemma length_normalized_rows: "length (normalized_rows quat) = length quat"
  by (cases quat) (simp_all add: normalized_rows_def length_processed)

text \<open>
  C2, as amended.  For every input sequence of quaternion rows none of which is the zero
  row, the continuity normalization returns as many rows as it was given; the first is
  the first input row scaled to unit length, and each later row is the input row scaled
  to unit length and multiplied by -1 exactly when that strictly reduces its distance
  to the already-processed row before it.  Every row has unit Euclidean norm, and every
  pair of consecutive processed rows \<open>q_i\<close>, \<open>q_j\<close> satisfies
  \<open>norm (q_j - q_i) \<le> norm (- q_j - q_i)\<close>.
\<close>

theorem continuity_normalize_unit_and_closer:
  assumes "(0, 0, 0, 0) \<notin> set quat"
  shows "continuity_normalize (map Some quat) = map Some (normalized_rows quat) \<and>
         length (normalized_rows quat) = length quat \<and>
         (quat \<noteq> [] \<longrightarrow> normalized_rows quat ! 0 = unit4 (quat ! 0)) \<and>
         (\<forall>i. Suc i < length quat \<longrightarrow>
            normalized_rows quat ! Suc i
              = flip_rule (normalized_rows quat ! i) (unit4 (quat ! Suc i))) \<and>
         list_all unit_row (continuity_normalize (map Some quat)) \<and>
         sign_convention (continuity_normalize (map Some quat))"
proof -
  have all: "list_all unit_row (map normalize_row (map Some quat))"
    using assms by (induction quat) (auto simp: norm4_zero_iff norm4_div4)
  have us: "list_all unit_row (continuity_normalize (map Some quat)) \<and>
         sign_convention (continuity_normalize (map Some quat))"
  proof (cases "map normalize_row (map Some quat)")
    case Nil
    then show ?thesis by (simp add: continuity_normalize_def)
  next
    case (Cons q0 rest)
    with all have "unit_row q0" "list_all unit_row rest" by simp_all
    then show ?thesis
      using Cons resolve_ambiguities_unit [of rest q0] resolve_ambiguities_sign [of q0 rest]
      by (simp add: continuity_normalize_def)
  qed
  have first: "quat \<noteq> [] \<longrightarrow> normalized_rows quat ! 0 = unit4 (quat ! 0)"
    by (cases quat) (simp_all add: normalized_rows_def)
  from continuity_normalize_rows [OF assms] length_normalized_rows first normalized_rows_step us
  show ?thesis by blast
qed

text \<open>
  The rows \<open>(2, 0, 0, 0)\<close>, \<open>(-2, 0, 0, 0)\<close> and \<open>(0, 2, 0, 0)\<close>: all are scaled to unit
  length; the second is flipped onto the first; the third is as far from the second
  either way and is not flipped.
\<close>

theorem continuity_normalize_unit_and_closer_witness:
  "(0, 0, 0, 0) \<notin> set ([(2, 0, 0, 0), (- 2, 0, 0, 0), (0, 2, 0, 0)] :: quat list) \<and>
   continuity_normalize (map Some [(2, 0, 0, 0), (- 2, 0, 0, 0), (0, 2, 0, 0)])
     = [Some (1, 0, 0, 0), Some (1, 0, 0, 0), Some (0, 1, 0, 0)] \<and>
   normalized_rows [(2, 0, 0, 0), (- 2, 0, 0, 0), (0, 2, 0, 0)]
     = [(1, 0, 0, 0), (1, 0, 0, 0), (0, 1, 0, 0)] \<and>
   unit4 (- 2, 0, 0, 0) = (- 1, 0, 0, 0) \<and>
   flip_rule (1, 0, 0, 0) (- 1, 0, 0, 0) = (1, 0, 0, 0) \<and>
   flip_rule (1, 0, 0, 0) (0, 1, 0, 0) = (0, 1, 0, 0) \<and>
   list_all unit_row (continuity_normalize (map Some [(2, 0, 0, 0), (- 2, 0, 0, 0), (0, 2, 0, 0)])) \<and>
   sign_convention (continuity_normalize (map Some [(2, 0, 0, 0), (- 2, 0, 0, 0), (0, 2, 0, 0)]))"
proof -
  have nz: "(0, 0, 0, 0) \<notin> set ([(2, 0, 0, 0), (- 2, 0, 0, 0), (0, 2, 0, 0)] :: quat list)"
    by simp
  have ev: "normalized_rows [(2, 0, 0, 0), (- 2, 0, 0, 0), (0, 2, 0, 0)]
     = [(1, 0, 0, 0), (1, 0, 0, 0), (0, 1, 0, 0)]"
    by (simp add: normalized_rows_def unit4_def flip_rule_def dist4_def minus4_def)
  have u: "unit4 (- 2, 0, 0, 0) = (- 1, 0, 0, 0)" by (simp add: unit4_def)
  have f1: "flip_rule (1, 0, 0, 0) (- 1, 0, 0, 0) = (1, 0, 0, 0)"
    by (simp add: flip_rule_def dist4_def minus4_def)
  have f2: "flip_rule (1, 0, 0, 0) (0, 1, 0, 0) = (0, 1, 0, 0)"
    by (simp add: flip_rule_def dist4_def minus4_def)
  note w = continuity_normalize_unit_and_closer [OF nz]
  from w have c: "continuity_normalize (map Some [(2, 0, 0, 0), (- 2, 0, 0, 0), (0, 2, 0, 0)])
     = [Some (1, 0, 0, 0), Some (1, 0, 0, 0), Some (0, 1, 0, 0)]"
    unfolding ev by simp
  from w nz ev u f1 f2 c show ?thesis by blast
qed

text \<open>
  The claim as stated fails on a zero row: its norm is zero, the division gives a row of
  nan, and that row has no unit norm.
\<close>

theorem continuity_normalize_zero_row_counterexample:
  "\<not> (list_all unit_row (continuity_normalize (map Some [(0, 0, 0, 0)])) \<and>
      sign_convention (continuity_normalize (map Some [(0, 0, 0, 0)])))"
  by (simp add: continuity_normalize_def norm4_def)


section \<open>Kinematic queries\<close>

lemma squeeze_stack_columns:
  "squeeze (stack_columns rows) =
     \<lparr>shape = rows_shape (length rows), entries = concat (map flat3 rows)\<rparr>"
  by (simp add: squeeze_def stack_columns_def rows_shape_def)

lemma rot_matrix_map: "rot_matrix L self query = map (rot_matrix_at L self) query"
  by (simp add: rot_matrix_def quaternion_def rot_matrix_at_def)

lemma transpose_021_rot_matrix:
  "query \<noteq> [] \<Longrightarrow>
   transpose_021 (rot_matrix L self query) = Inr (map (map_option transpose3) (rot_matrix L self query))"
  by (simp add: transpose_021_def rot_matrix_def quaternion_def)

subsection \<open>Angular velocity\<close>

lemma sqrt_25: "sqrt 25 = 5"
  by (rule real_sqrt_unique) simp_all

lemma angular_velocity_one_time:
  "map_option (\<lambda>q'. mat34_vec (S_of L q') (quat_spline self t 1))
     (normalize_row (Some (quat_spline self t 0))) = angular_velocity_at L self t"
proof -
  obtain w x y z where q: "quat_spline self t 0 = (w, x, y, z)"
    by (cases "quat_spline self t 0") auto
  obtain d0 d1 d2 d3 where d: "quat_spline self t 1 = (d0, d1, d2, d3)"
    by (cases "quat_spline self t 1") auto
  define n where "n = sqrt (w\<^sup>2 + x\<^sup>2 + y\<^sup>2 + z\<^sup>2)"
  obtain w11 w12 w13 w21 w22 w23 w31 w32 w33 where
    W: "wedge L (x / n, y / n, z / n) = ((w11, w12, w13), (w21, w22, w23), (w31, w32, w33))"
    by (cases "wedge L (x / n, y / n, z / n)" rule: prod_cases3;
        cases "fst (wedge L (x / n, y / n, z / n))";
        cases "fst (snd (wedge L (x / n, y / n, z / n)))";
        cases "snd (snd (wedge L (x / n, y / n, z / n)))") auto
  show ?thesis
    using q d W
    by (simp add: angular_velocity_at_def norm4_def div4_def S_of_def hstack_def scale3_def
        scale33_def sub33_def sub3_def eye3_def mat34_vec_def dot4_def Let_def n_def)
qed

lemma angular_velocity_columns:
  "map2 (\<lambda>q_i qd. map_option (\<lambda>q'. mat34_vec (S_of L q') qd) q_i)
     (map (\<lambda>t. normalize_row (Some (quat_spline self t 0))) query)
     (map (\<lambda>t. quat_spline self t 1) query)
   = map (angular_velocity_at L self) query"
proof (induction query)
  case Nil
  then show ?case by simp
next
  case (Cons t query)
  with angular_velocity_one_time [of L self t] show ?case by simp
qed

text \<open>
  C1.  For every sequence of query times, \<open>angular_velocity\<close> returns, per query time,
  \<open>S(q) q_dot\<close>, with \<open>q\<close> the order-0 value of the orientation spline divided by its
  Euclidean length, \<open>q_dot\<close> the first derivative and \<open>S(q)\<close> the matrix
  \<open>[- 2 eps, 2 (eta I - skew eps)]\<close>: the entries of the result are the rows
  \<open>angular_velocity_at\<close>, written out entry by entry, of the query times, one after the
  other (a row of nan where the spline value is the zero quaternion).  The shape is
  (N, 3), and (3,) for one query time.
\<close>

theorem angular_velocity_rows:
  "angular_velocity L self query =
     \<lparr>shape = rows_shape (length query),
      entries = concat (map (\<lambda>t. flat3 (angular_velocity_at L self t)) query)\<rparr>"
proof -
  have "angular_velocity L self query =
          squeeze (stack_columns (map (angular_velocity_at L self) query))"
    unfolding angular_velocity_def Let_def angular_velocity_columns ..
  then show ?thesis
    by (simp add: squeeze_stack_columns comp_def)
qed

text \<open>
  Two query times, the spline value \<open>(0, 3, 0, 4)\<close> of length 5, the derivative
  \<open>(1, 2, 3, 4 + t)\<close> and the usual skew matrix.
\<close>

theorem angular_velocity_rows_witness:
  "angular_velocity
     \<lparr>csaps3 = (\<lambda>ts pos s. Inl LibraryError), csaps4 = (\<lambda>ts q s. Inl LibraryError),
      from_quat = (\<lambda>q. None), to_quat = (\<lambda>C. None),
      wedge = (\<lambda>(a, b, c). ((0, - c, b), (c, 0, - a), (- b, a, 0)))\<rparr>
     \<lparr>stamps = [0, 1], raw_position = [(0, 0, 0), (0, 0, 0)],
      raw_quaternion = [Some (1, 0, 0, 0), Some (1, 0, 0, 0)],
      frame_id = None, pos_spline = (\<lambda>t nu. (0, 0, 0)),
      quat_spline = (\<lambda>t nu. if nu = 0 then (0, 3, 0, 4) else (1, 2, 3, 4 + t)),
      static_mask = [False, False]\<rparr>
     [0, 1]
   = \<lparr>shape = [2, 3],
      entries = [Some (18 / 5), Some (8 / 5), Some (- 26 / 5),
                 Some (18 / 5), Some (14 / 5), Some (- 26 / 5)]\<rparr>"
  unfolding angular_velocity_rows
  by (simp add: rows_shape_def angular_velocity_at_def Let_def sqrt_25)

subsection \<open>Accelerometer\<close>

lemma accelerometer_columns:
  "map2 (\<lambda>C a. map_option (\<lambda>C'. mat_vec3 C' (sub3 a g)) C)
     (map (map_option transpose3) (rot_matrix L self query))
     (map (\<lambda>t. pos_spline self t 2) query)
   = map (accelerometer_at L self g) query"
  by (induction query)
    (simp_all add: rot_matrix_def quaternion_def accelerometer_at_def rot_matrix_at_def
      option.map_comp comp_def)

text \<open>
  For every non-empty sequence of query times and every gravity vector
  (\<open>[0, 0, -9.80665]\<close> when none is given), \<open>accelerometer\<close> returns, per query time,
  the transpose of the rotation matrix at that time applied to the acceleration at that
  time minus gravity.  The shape is (N, 3), and (3,) for one query time.
\<close>

lemma accelerometer_rows:
  assumes "query \<noteq> []"
  shows "accelerometer L self query g_a =
     Inr \<lparr>shape = rows_shape (length query),
          entries = concat (map (\<lambda>t. flat3 (accelerometer_at L self
                  (case g_a of None \<Rightarrow> (0, 0, - 9.80665) | Some g \<Rightarrow> g) t)) query)\<rparr>"
proof -
  have "accelerometer L self query g_a =
          Inr (squeeze (stack_columns (map (accelerometer_at L self
            (case g_a of None \<Rightarrow> (0, 0, - 9.80665) | Some g \<Rightarrow> g)) query)))"
    unfolding accelerometer_def Let_def transpose_021_rot_matrix [OF assms] sum.case
      accelerometer_columns ..
  then show ?thesis
    by (simp add: squeeze_stack_columns comp_def)
qed

text \<open>
  Two query times, a rotation by a quarter turn about the third axis, the acceleration
  \<open>(1 + t, 2, 3)\<close> and the gravity \<open>(0, 0, -10)\<close>.
\<close>

lemma accelerometer_two_queries:
  "[0, 1] \<noteq> ([] :: real list) \<and>
   accelerometer
     \<lparr>csaps3 = (\<lambda>ts pos s. Inr (\<lambda>t nu. (0, 0, 0))),
      csaps4 = (\<lambda>ts q s. Inr (\<lambda>t nu. (1, 0, 0, 0))),
      from_quat = (\<lambda>q. Some ((0, - 1, 0), (1, 0, 0), (0, 0, 1))), to_quat = (\<lambda>C. None),
      wedge = (\<lambda>v. eye3)\<rparr>
     \<lparr>stamps = [0, 1, 2], raw_position = [(0, 0, 0), (0, 0, 0), (0, 0, 0)],
      raw_quaternion = [Some (1, 0, 0, 0), Some (1, 0, 0, 0), Some (1, 0, 0, 0)],
      frame_id = None, pos_spline = (\<lambda>t nu. if nu = 2 then (1 + t, 2, 3) else (0, 0, 0)),
      quat_spline = (\<lambda>t nu. (1, 0, 0, 0)),
      static_mask = [True, True, False]\<rparr>
     [0, 1] (Some (0, 0, - 10))
   = Inr \<lparr>shape = [2, 3], entries = [Some 2, Some (- 1), Some 13, Some 2, Some (- 2), Some 13]\<rparr>"
proof -
  have ne: "[0, 1] \<noteq> ([] :: real list)" by simp
  note w = accelerometer_rows [OF ne, of
     "\<lparr>csaps3 = (\<lambda>ts pos s. Inr (\<lambda>t nu. (0, 0, 0))),
      csaps4 = (\<lambda>ts q s. Inr (\<lambda>t nu. (1, 0, 0, 0))),
      from_quat = (\<lambda>q. Some ((0, - 1, 0), (1, 0, 0), (0, 0, 1))), to_quat = (\<lambda>C. None),
      wedge = (\<lambda>v. eye3)\<rparr>"
     "\<lparr>stamps = [0, 1, 2], raw_position = [(0, 0, 0), (0, 0, 0), (0, 0, 0)],
      raw_quaternion = [Some (1, 0, 0, 0), Some (1, 0, 0, 0), Some (1, 0, 0, 0)],
      frame_id = None, pos_spline = (\<lambda>t nu. if nu = 2 then (1 + t, 2, 3) else (0, 0, 0)),
      quat_spline = (\<lambda>t nu. (1, 0, 0, 0)),
      static_mask = [True, True, False]\<rparr>" "Some (0, 0, - 10)"]
  show ?thesis
    unfolding w
    by (simp add: rows_shape_def accelerometer_at_def rot_matrix_at_def norm4_def div4_def
        mat_vec3_def transpose3_def dot3_def sub3_def)
qed

text \<open>
  C5.  The claim is that \<open>accelerometer\<close> returns a row per query time for every array
  of query times.  On the empty array the code raises ValueError: the array of rotation
  matrices then has shape (0,), and its transposition fails.  The docstring promises
  shape \<open>(len(stamps), 3)\<close>, and the other queries return empty results there.
\<close>

theorem accelerometer_empty_query_raises:
  "accelerometer L self [] g_a = Inl ValueError \<and>
   angular_velocity L self [] = \<lparr>shape = [0, 3], entries = []\<rparr> \<and>
   position self [] = [] \<and> acceleration self [] = [] \<and> quaternion self [] = []"
  by (simp add: accelerometer_def transpose_021_def rot_matrix_def quaternion_def
      angular_velocity_def squeeze_def stack_columns_def position_def acceleration_def)

subsection \<open>Body-frame velocity\<close>

lemma body_velocity_columns:
  "map2 (\<lambda>C v. map_option (\<lambda>C'. mat_vec3 C' v) C)
     (map (map_option transpose3) (rot_matrix L self query))
     (velocity self query)
   = map (body_velocity_at L self) query"
  by (induction query)
    (simp_all add: rot_matrix_def quaternion_def velocity_def body_velocity_at_def
      rot_matrix_at_def option.map_comp comp_def)

lemma body_velocity_unfold:
  assumes "query \<noteq> []"
  shows "body_velocity L self query =
     Inr (transpose_T \<lparr>shape = rows_shape (length query),
                  entries = concat (map (\<lambda>t. flat3 (body_velocity_at L self t)) query)\<rparr>)"
proof -
  have "body_velocity L self query =
          Inr (transpose_T (squeeze (stack_columns (map (body_velocity_at L self) query))))"
    unfolding body_velocity_def Let_def transpose_021_rot_matrix [OF assms] sum.case
      body_velocity_columns ..
  then show ?thesis
    by (simp add: squeeze_stack_columns comp_def)
qed

lemma flat3_cases: "\<exists>a b c. flat3 r = [a, b, c]"
  by (cases r) auto

text \<open>
  The final \<^verbatim>\<open>.T\<close> puts the three coordinates first: for every number N of query
  times other than zero and one, \<open>body_velocity\<close> returns shape (3, N); for one query
  time, shape (3,); for none, it raises.
\<close>

lemma body_velocity_shape:
  "body_velocity L self query =
     (if query = [] then Inl ValueError
      else Inr \<lparr>shape = (if length query = 1 then [3] else [3, length query]),
                entries = entries (transpose_T
                   \<lparr>shape = rows_shape (length query),
                    entries = concat (map (\<lambda>t. flat3 (body_velocity_at L self t)) query)\<rparr>)\<rparr>)"
proof (cases "query = []")
  case True
  then show ?thesis by (simp add: body_velocity_def transpose_021_def rot_matrix_def quaternion_def)
next
  case False
  then show ?thesis
    by (simp add: body_velocity_unfold rows_shape_def transpose_T_def)
qed

text \<open>
  C4.  The claim is that \<open>body_velocity\<close> returns one row per query time, shape (N, 3).
  On two query times the code returns shape (3, 2): the rows are the three coordinates
  and the columns the query times, the transpose of what the claim and the docstring say.
\<close>

theorem body_velocity_two_queries:
  "body_velocity L self [t1, t2] =
     Inr \<lparr>shape = [3, 2],
          entries = concat (transpose [flat3 (body_velocity_at L self t1),
                                       flat3 (body_velocity_at L self t2)])\<rparr>"
proof -
  obtain a b c where a: "flat3 (body_velocity_at L self t1) = [a, b, c]"
    using flat3_cases by blast
  obtain d e f where d: "flat3 (body_velocity_at L self t2) = [d, e, f]"
    using flat3_cases by blast
  show ?thesis
    by (simp add: body_velocity_unfold rows_shape_def transpose_T_def a d ravel_index_def upt_rec)
qed

section \<open>Frame re-basing\<close>

text \<open>The products the code computes are the products written out entry by entry.\<close>

lemma mat3_cases:
  obtains a b c d e f g h i where "M = ((a, b, c), (d, e, f), (g, h, i :: real))"
  by (cases M rule: prod_cases3; cases "fst M"; cases "fst (snd M)"; cases "snd (snd M)") auto

lemma mat_mul3_transpose_left: "mat_mul3 (transpose3 A) C = new_world_rotation A C"
proof -
  obtain a11 a12 a13 a21 a22 a23 a31 a32 a33 where
    A: "A = ((a11, a12, a13), (a21, a22, a23), (a31, a32, a33))" by (rule mat3_cases)
  obtain c11 c12 c13 c21 c22 c23 c31 c32 c33 where
    C: "C = ((c11, c12, c13), (c21, c22, c23), (c31, c32, c33))" by (rule mat3_cases)
  show ?thesis
    by (simp add: A C mat_mul3_def transpose3_def mat_vec3_def dot3_def new_world_rotation_def
        mult.commute)
qed

lemma mat_vec3_transpose: "mat_vec3 (transpose3 A) r = new_world_position A r"
proof -
  obtain a11 a12 a13 a21 a22 a23 a31 a32 a33 where
    A: "A = ((a11, a12, a13), (a21, a22, a23), (a31, a32, a33))" by (rule mat3_cases)
  obtain r1 r2 r3 where r: "r = (r1, r2, r3)" by (cases r) auto
  show ?thesis
    by (simp add: A r transpose3_def mat_vec3_def dot3_def new_world_position_def)
qed

lemma mat_mul3_transpose_right: "mat_mul3 C (transpose3 B) = new_body_rotation C B"
proof -
  obtain b11 b12 b13 b21 b22 b23 b31 b32 b33 where
    B: "B = ((b11, b12, b13), (b21, b22, b23), (b31, b32, b33))" by (rule mat3_cases)
  obtain c11 c12 c13 c21 c22 c23 c31 c32 c33 where
    C: "C = ((c11, c12, c13), (c21, c22, c23), (c31, c32, c33))" by (rule mat3_cases)
  show ?thesis
    by (simp add: B C mat_mul3_def transpose3_def mat_vec3_def dot3_def new_body_rotation_def
        mult.commute)
qed

lemma mat_mul3_transpose_left_fun: "mat_mul3 (transpose3 A) = new_world_rotation A"
  by (rule ext) (rule mat_mul3_transpose_left)

lemma mat_vec3_transpose_fun: "mat_vec3 (transpose3 A) = new_world_position A"
  by (rule ext) (rule mat_vec3_transpose)

text \<open>
  C7.  For every 3x3 matrix \<open>C_bm\<close>, \<open>rotate_body_frame\<close> takes the rotation of the
  current spline at each original sample instant, multiplies it by the transpose of
  \<open>C_bm\<close> on the right (entry \<open>(i, j)\<close> of the product is the sum over \<open>k\<close> of
  \<open>C(i, k) C_bm(j, k)\<close>), converts to quaternions, runs the continuity normalizer and
  fits the orientation spline on the result; only the orientation spline is replaced
  (nothing when the fit raises, or when the object has no stamps).  The position data
  and the position spline are the same after the call, and so is every position,
  velocity and acceleration query.
\<close>

theorem rotate_body_frame_refits_orientation:
  "rotate_body_frame L self C_bm =
     (if stamps self = [] then (self, Some ValueError)
      else case csaps4 L (stamps self)
             (continuity_normalize
                (map (\<lambda>t. to_quat L (map_option (\<lambda>C_wm. new_body_rotation C_wm C_bm)
                                          (rot_matrix_at L self t)))
                   (stamps self)))
             0.99999 of
        Inl e \<Rightarrow> (self, Some e)
      | Inr s \<Rightarrow> (self\<lparr>quat_spline := s\<rparr>, None)) \<and>
   pos_spline (fst (rotate_body_frame L self C_bm)) = pos_spline self \<and>
   raw_position (fst (rotate_body_frame L self C_bm)) = raw_position self \<and>
   position (fst (rotate_body_frame L self C_bm)) query = position self query \<and>
   velocity (fst (rotate_body_frame L self C_bm)) query = velocity self query \<and>
   acceleration (fst (rotate_body_frame L self C_bm)) query = acceleration self query"
  by (simp add: rotate_body_frame_def matmul_each_right_def fit_quaternion_spline_def
      rot_matrix_map Let_def comp_def position_def velocity_def acceleration_def
      mat_mul3_transpose_right split: sum.splits)

text \<open>
  Two stamps; the spline values \<open>(2, 0, 0, 0)\<close> and \<open>(-2, 0, 0, 0)\<close> give the rotations
  \<open>M\<close> and \<open>- M\<close> with rows \<open>(0, 0, 0)\<close>, \<open>(3, 0, 0)\<close>, \<open>(4, 0, 0)\<close>; \<open>C_bm\<close> is a quarter
  turn about the third axis, so \<open>M\<close> times its transpose has the rows \<open>(0, 0, 0)\<close>,
  \<open>(0, 3, 0)\<close>, \<open>(0, 4, 0)\<close>.  The conversion reads the quaternion \<open>(3, 0, 4, 0)\<close> and its
  negative off the products; the normalizer scales both to length one and flips the
  second, and the fit, which here returns the last row it was given, becomes the
  orientation spline.
\<close>

theorem rotate_body_frame_refits_orientation_witness:
  "rotate_body_frame
     \<lparr>csaps3 = (\<lambda>ts pos s. Inr (\<lambda>t nu. last pos)),
      csaps4 = (\<lambda>ts q s. Inr (\<lambda>t nu. case last q of Some r \<Rightarrow> r | None \<Rightarrow> (0, 0, 0, 0))),
      from_quat = map_option (\<lambda>(w, x, y, z). ((0, 0, 0), (3 * w, 0, 0), (4 * w, 0, 0))),
      to_quat = map_option (\<lambda>((a, b, c), (d, e, f), (g, h, i)). (e, d, h, g)),
      wedge = (\<lambda>v. eye3)\<rparr>
     \<lparr>stamps = [0, 1], raw_position = [(0, 0, 0), (0, 0, 0)],
      raw_quaternion = [Some (1, 0, 0, 0), Some (1, 0, 0, 0)], frame_id = None,
      pos_spline = (\<lambda>t nu. (1 + t, 2, 3)),
      quat_spline = (\<lambda>t nu. if t \<le> 0 then (2, 0, 0, 0) else (- 2, 0, 0, 0)),
      static_mask = [False, False]\<rparr>
     ((0, - 1, 0), (1, 0, 0), (0, 0, 1))
   = (\<lparr>stamps = [0, 1], raw_position = [(0, 0, 0), (0, 0, 0)],
       raw_quaternion = [Some (1, 0, 0, 0), Some (1, 0, 0, 0)], frame_id = None,
       pos_spline = (\<lambda>t nu. (1 + t, 2, 3)),
       quat_spline = (\<lambda>t nu. (3 / 5, 0, 4 / 5, 0)),
       static_mask = [False, False]\<rparr>, None)"
proof -
  have c: "continuity_normalize [Some (3, 0, 4, 0), Some (- 3, 0, - 4, 0)]
             = [Some (3 / 5, 0, 4 / 5, 0), Some (3 / 5, 0, 4 / 5, 0)]"
    by (simp add: continuity_normalize_def norm4_def div4_def neg4_def sub4_def Let_def sqrt_25
        power2_eq_square)
  show ?thesis
    unfolding rotate_body_frame_refits_orientation [THEN conjunct1]
    by (simp add: rot_matrix_at_def norm4_def div4_def new_body_rotation_def c)
qed

text \<open>
  C6.  For every 3x3 matrix \<open>C_wn\<close>, \<open>rotate_world_frame\<close> fits the position spline
  on the positions of the current spline at the original sample instants, each multiplied
  by the transpose of \<open>C_wn\<close> (entry \<open>i\<close> is the sum over \<open>k\<close> of \<open>C_wn(k, i) r(k)\<close>),
  and fits the orientation spline on the quaternions of the transpose of \<open>C_wn\<close> times
  the rotation of the current spline at each original sample instant (entry \<open>(i, j)\<close> is
  the sum over \<open>k\<close> of \<open>C_wn(k, i) C(k, j)\<close>), after the continuity normalizer; both
  splines are replaced by these fits.  (On an object without stamps the product with the
  rotation matrices raises and nothing is replaced; when the second fit raises, the
  position spline is already replaced.)
\<close>

theorem rotate_world_frame_refits_both:
  "rotate_world_frame L self C_wn =
     (if stamps self = [] then (self, Some ValueError)
      else case csaps3 L (stamps self)
             (map (\<lambda>t. new_world_position C_wn (pos_spline self t 0)) (stamps self))
             0.9999 of
        Inl e \<Rightarrow> (self, Some e)
      | Inr ps \<Rightarrow>
          (case csaps4 L (stamps self)
                  (continuity_normalize
                     (map (\<lambda>t. to_quat L (map_option (new_world_rotation C_wn)
                                               (rot_matrix_at L self t)))
                        (stamps self)))
                  0.99999 of
             Inl e \<Rightarrow> (self\<lparr>pos_spline := ps\<rparr>, Some e)
           | Inr qs \<Rightarrow> (self\<lparr>pos_spline := ps, quat_spline := qs\<rparr>, None)))"
  by (simp add: rotate_world_frame_def matmul_each_left_def fit_quaternion_spline_def
      fit_position_spline_def rot_matrix_map Let_def comp_def position_def
      mat_mul3_transpose_left_fun mat_vec3_transpose_fun split: sum.splits)

text \<open>
  The same two stamps and rotations, \<open>C_wn\<close> a quarter turn about the third axis: its
  transpose times \<open>M\<close> has the rows \<open>(3, 0, 0)\<close>, \<open>(0, 0, 0)\<close>, \<open>(4, 0, 0)\<close>, and applied
  to the position \<open>(2, 2, 3)\<close> at the last stamp it gives \<open>(2, -2, 3)\<close>.
\<close>

theorem rotate_world_frame_refits_both_witness:
  "rotate_world_frame
     \<lparr>csaps3 = (\<lambda>ts pos s. Inr (\<lambda>t nu. last pos)),
      csaps4 = (\<lambda>ts q s. Inr (\<lambda>t nu. case last q of Some r \<Rightarrow> r | None \<Rightarrow> (0, 0, 0, 0))),
      from_quat = map_option (\<lambda>(w, x, y, z). ((0, 0, 0), (3 * w, 0, 0), (4 * w, 0, 0))),
      to_quat = map_option (\<lambda>((a, b, c), (d, e, f), (g, h, i)). (a, e, g, i)),
      wedge = (\<lambda>v. eye3)\<rparr>
     \<lparr>stamps = [0, 1], raw_position = [(0, 0, 0), (0, 0, 0)],
      raw_quaternion = [Some (1, 0, 0, 0), Some (1, 0, 0, 0)], frame_id = None,
      pos_spline = (\<lambda>t nu. (1 + t, 2, 3)),
      quat_spline = (\<lambda>t nu. if t \<le> 0 then (2, 0, 0, 0) else (- 2, 0, 0, 0)),
      static_mask = [False, False]\<rparr>
     ((0, - 1, 0), (1, 0, 0), (0, 0, 1))
   = (\<lparr>stamps = [0, 1], raw_position = [(0, 0, 0), (0, 0, 0)],
       raw_quaternion = [Some (1, 0, 0, 0), Some (1, 0, 0, 0)], frame_id = None,
       pos_spline = (\<lambda>t nu. (2, - 2, 3)),
       quat_spline = (\<lambda>t nu. (3 / 5, 0, 4 / 5, 0)),
       static_mask = [False, False]\<rparr>, None)"
proof -
  have c: "continuity_normalize [Some (3, 0, 4, 0), Some (- 3, 0, - 4, 0)]
             = [Some (3 / 5, 0, 4 / 5, 0), Some (3 / 5, 0, 4 / 5, 0)]"
    by (simp add: continuity_normalize_def norm4_def div4_def neg4_def sub4_def Let_def sqrt_25
        power2_eq_square)
  show ?thesis
    unfolding rotate_world_frame_refits_both
    by (simp add: rot_matrix_at_def norm4_def div4_def new_world_rotation_def
        new_world_position_def c)
qed

text \<open>What a call can leave behind: the object with one or both splines replaced.\<close>

lemma rotate_body_frame_outcome:
  "(\<exists>e. rotate_body_frame L self C = (self, Some e)) \<or>
   (\<exists>s. rotate_body_frame L self C = (self\<lparr>quat_spline := s\<rparr>, None))"
  by (auto simp: rotate_body_frame_def Let_def split: sum.splits prod.splits)

lemma rotate_world_frame_outcome:
  "(\<exists>e. rotate_world_frame L self C = (self, Some e)) \<or>
   (\<exists>ps e. rotate_world_frame L self C = (self\<lparr>pos_spline := ps\<rparr>, Some e)) \<or>
   (\<exists>ps qs. rotate_world_frame L self C = (self\<lparr>pos_spline := ps, quat_spline := qs\<rparr>, None))"
  by (auto simp: rotate_world_frame_def Let_def split: sum.splits prod.splits)

lemma is_static_splines:
  "is_static (self\<lparr>quat_spline := s\<rparr>) query = is_static self query"
  "is_static (self\<lparr>pos_spline := ps\<rparr>) query = is_static self query"
  "is_static (self\<lparr>pos_spline := ps, quat_spline := qs\<rparr>) query = is_static self query"
  by (simp_all add: is_static_def Let_def)

text \<open>
  C10.  Neither \<open>rotate_body_frame\<close> nor \<open>rotate_world_frame\<close> changes \<open>stamps\<close>,
  \<open>raw_position\<close>, \<open>raw_quaternion\<close>, \<open>frame_id\<close> or \<open>static_mask\<close>, whether the call
  returns or raises, and \<open>is_static\<close> gives the same result before and after the call.
\<close>

theorem rebasing_keeps_raw_data_and_mask:
  "stamps (fst (rotate_body_frame L self C)) = stamps self \<and>
   raw_position (fst (rotate_body_frame L self C)) = raw_position self \<and>
   raw_quaternion (fst (rotate_body_frame L self C)) = raw_quaternion self \<and>
   frame_id (fst (rotate_body_frame L self C)) = frame_id self \<and>
   static_mask (fst (rotate_body_frame L self C)) = static_mask self \<and>
   is_static (fst (rotate_body_frame L self C)) query = is_static self query \<and>
   stamps (fst (rotate_world_frame L self C)) = stamps self \<and>
   raw_position (fst (rotate_world_frame L self C)) = raw_position self \<and>
   raw_quaternion (fst (rotate_world_frame L self C)) = raw_quaternion self \<and>
   frame_id (fst (rotate_world_frame L self C)) = frame_id self \<and>
   static_mask (fst (rotate_world_frame L self C)) = static_mask self \<and>
   is_static (fst (rotate_world_frame L self C)) query = is_static self query"
proof -
  have b: "stamps (fst (rotate_body_frame L self C)) = stamps self \<and>
   raw_position (fst (rotate_body_frame L self C)) = raw_position self \<and>
   raw_quaternion (fst (rotate_body_frame L self C)) = raw_quaternion self \<and>
   frame_id (fst (rotate_body_frame L self C)) = frame_id self \<and>
   static_mask (fst (rotate_body_frame L self C)) = static_mask self \<and>
   is_static (fst (rotate_body_frame L self C)) query = is_static self query"
    using rotate_body_frame_outcome [of L self C]
    by (elim disjE exE) (simp_all add: is_static_splines)
  have w: "stamps (fst (rotate_world_frame L self C)) = stamps self \<and>
   raw_position (fst (rotate_world_frame L self C)) = raw_position self \<and>
   raw_quaternion (fst (rotate_world_frame L self C)) = raw_quaternion self \<and>
   frame_id (fst (rotate_world_frame L self C)) = frame_id self \<and>
   static_mask (fst (rotate_world_frame L self C)) = static_mask self \<and>
   is_static (fst (rotate_world_frame L self C)) query = is_static self query"
    using rotate_world_frame_outcome [of L self C]
    by (elim disjE exE) (simp_all add: is_static_splines)
  from b w show ?thesis by (intro conjI) (elim conjE, assumption)+
qed

section \<open>The static detector\<close>

lemma get_static_mask_three_samples:
  "get_static_mask [0, 1, 2] [(0, 0, 0), (0, 0, 0), (0, 0, 0)] 1 0.0008 = Inr [True, True, False]"
  by (simp add: get_static_mask_def py_round_def Let_def window_static_def py_slice_def
      slice_index_def np_cov_def mean_def trace3_def set_item_def fill_slice_def upt_rec upto.simps)

text \<open>
  C3.  The claim is that a static window found at \<open>i = N - h - 1\<close> marks every index from
  \<open>i\<close> to the end.  Three samples at 0, 1 and 2 seconds that do not move, window size 1:
  the frequency is 3/2, the half width is \<open>round(3/4) = 1\<close>, and the one window, rows
  \<open>[0, 2)\<close> at \<open>i = 1\<close>, is static and is both the first and the last.  The code marks
  indices 0 and 1 and leaves the last index unmarked, because the right edge is in the
  \<^verbatim>\<open>elif\<close> of the left one; the flags the claim describes are all three marked.
\<close>

theorem get_static_mask_single_window:
  "py_round (1 / 2 * (1 / ((2 - 0) / 3))) = 1 \<and>
   window_static [(0, 0, 0), (0, 0, 0), (0, 0, 0)] 1 (0.0008\<^sup>2) 1 \<and>
   get_static_mask [0, 1, 2] [(0, 0, 0), (0, 0, 0), (0, 0, 0)] 1 0.0008 = Inr [True, True, False] \<and>
   map (\<lambda>k. claimed_flag [(0, 0, 0), (0, 0, 0), (0, 0, 0)] 1 (0.0008\<^sup>2) 3 (int k)) [0..<3]
     = [True, True, True]"
proof (intro conjI)
  show "py_round (1 / 2 * (1 / ((2 - 0) / 3))) = 1"
    by (simp add: py_round_def Let_def)
  show "window_static [(0, 0, 0), (0, 0, 0), (0, 0, 0)] 1 (0.0008\<^sup>2) 1"
    by (simp add: window_static_def py_slice_def slice_index_def np_cov_def mean_def trace3_def
        Let_def)
  show "get_static_mask [0, 1, 2] [(0, 0, 0), (0, 0, 0), (0, 0, 0)] 1 0.0008 = Inr [True, True, False]"
    by (rule get_static_mask_three_samples)
  show "map (\<lambda>k. claimed_flag [(0, 0, 0), (0, 0, 0), (0, 0, 0)] 1 (0.0008\<^sup>2) 3 (int k)) [0..<3]
          = [True, True, True]"
    by (simp add: claimed_flag_def window_static_def py_slice_def slice_index_def np_cov_def
        mean_def trace3_def Let_def upt_rec)
qed


lemma fill_slice_length: "length (fill_slice xs a b v) = length xs"
  by (simp add: fill_slice_def Let_def)



subsection \<open>The flags of every index\<close>

lemma set_item_in_range:
  "0 \<le> i \<Longrightarrow> i < int (length xs) \<Longrightarrow> set_item xs i v = Inr (xs[nat i := v])"
  by (simp add: set_item_def Let_def)

lemma fill_slice_nth:
  "k < length xs \<Longrightarrow>
   fill_slice xs a b v ! k =
     (if nat (slice_index (int (length xs)) a) \<le> k \<and> k < nat (slice_index (int (length xs)) b)
      then v else xs ! k)"
  by (simp add: fill_slice_def Let_def)

lemma static_loop_flags:
  assumes "0 \<le> h" "h \<le> j" "j \<le> n - h" "length F = nat n"
    and "F = map (\<lambda>k. partial_flag pos h thr n j (int k)) [0..<nat n]"
    and "j = n - h \<longrightarrow> \<not> (h < n - h - 1 \<and> window_static pos h thr (n - h - 1))"
  shows "static_loop pos h thr n [j..n - h - 1] F
         = Inr (map (\<lambda>k. expected_flag pos h thr n (int k)) [0..<nat n])"
  using assms
proof (induction "nat (n - h - j)" arbitrary: j F)
  case 0
  then have j: "j = n - h" by simp
  then have "[j..n - h - 1] = []" by simp
  moreover have "partial_flag pos h thr n j (int k) = expected_flag pos h thr n (int k)" 
    if "k < nat n" for k
    using that j 0 by (auto simp: partial_flag_def expected_flag_def)
  ultimately show ?case using 0 by (simp cong: map_cong)
next
  case (Suc d)
  then have jl: "j \<le> n - h - 1" by linarith
  then have up: "[j..n - h - 1] = j # [j + 1..n - h - 1]" by (simp add: upto_rec1)
  have jn: "0 \<le> j" "j < int (length F)" using Suc.prems jl by simp_all
  have Fk: "F ! k = partial_flag pos h thr n j (int k)" if "k < nat n" for k
    using that Suc.prems(5) by simp
  have upd: "F[nat j := True] ! k = (if int k = j then True else F ! k)" if "k < nat n" for k
    using that jn Suc.prems(4) by (auto simp: nth_list_update)
  define F' where "F' = map (\<lambda>k. partial_flag pos h thr n (j + 1) (int k)) [0..<nat n]"
  have lenF': "length F' = nat n" by (simp add: F'_def)
  have d: "d = nat (n - h - (j + 1))" using Suc.hyps(2) by linarith
  show ?case
  proof (cases "j + 1 \<le> n - h - 1 \<or> \<not> window_static pos h thr j \<or> j = h")
    case True
    text \<open>no right-edge fill in this step\<close>
    have step: "static_loop pos h thr n [j..n - h - 1] F = static_loop pos h thr n [j + 1..n - h - 1] F'"
    proof (cases "window_static pos h thr j")
      case False
      have "j = h \<or> h < j" using Suc.prems(2) by linarith
      then have "F = F'"
        unfolding F'_def Suc.prems(5) using False
        by (intro map_cong refl) (auto simp: partial_flag_def)
      then show ?thesis using False up by simp
    next
      case W: True
      show ?thesis
      proof (cases "j = h")
        case jh: True
        have "fill_slice (F[nat j := True]) 0 h True = F'"
        proof (rule nth_equalityI)
          show "length (fill_slice (F[nat j := True]) 0 h True) = length F'"
            using lenF' Suc.prems(4) by (simp add: fill_slice_length)
        next
          fix k assume "k < length (fill_slice (F[nat j := True]) 0 h True)"
          then have k: "k < nat n" using Suc.prems(4) by (simp add: fill_slice_length)
          then show "fill_slice (F[nat j := True]) 0 h True ! k = F' ! k"
            using W jh Suc.prems(1,2,3,4) Fk [OF k]
            by (auto simp: fill_slice_nth slice_index_def F'_def partial_flag_def upd)
        qed
        then show ?thesis using W jh up jn by (simp add: set_item_in_range)
      next
        case jh: False
        with True W have nl: "j \<noteq> n - h - 1" by auto
        have "F[nat j := True] = F'"
        proof (rule nth_equalityI)
          show "length (F[nat j := True]) = length F'" using lenF' Suc.prems(4) by simp
        next
          fix k assume "k < length (F[nat j := True])"
          then have k: "k < nat n" using Suc.prems(4) by simp
          then show "F[nat j := True] ! k = F' ! k"
            using W jh Suc.prems(1,2,3,4) Fk [OF k]
            by (auto simp: F'_def partial_flag_def upd)
        qed
        then show ?thesis using W jh nl up jn by (simp add: set_item_in_range)
      qed
    qed
    have le: "j + 1 \<le> n - h" using jl by simp
    have fin: "j + 1 = n - h \<longrightarrow> \<not> (h < n - h - 1 \<and> window_static pos h thr (n - h - 1))"
    proof (intro impI notI)
      assume a: "j + 1 = n - h" and b: "h < n - h - 1 \<and> window_static pos h thr (n - h - 1)"
      from a have "n - h - 1 = j" by simp
      with b True show False by auto
    qed
    from Suc.hyps(1) [OF d Suc.prems(1) _ le lenF' F'_def fin] Suc.prems(2) step
    show ?thesis by simp
  next
    case False
    then have last: "j = n - h - 1" and W: "window_static pos h thr j" and jh: "j \<noteq> h"
      using jl by auto
    have up': "[j..n - h - 1] = [j]" using last by (simp add: upto_rec1)
    have "fill_slice (F[nat j := True]) j (int (length (F[nat j := True]))) True
            = map (\<lambda>k. expected_flag pos h thr n (int k)) [0..<nat n]"
    proof (rule nth_equalityI)
      show "length (fill_slice (F[nat j := True]) j (int (length (F[nat j := True]))) True)
              = length (map (\<lambda>k. expected_flag pos h thr n (int k)) [0..<nat n])"
        using Suc.prems(4) by (simp add: fill_slice_length)
    next
      fix k assume "k < length (fill_slice (F[nat j := True]) j (int (length (F[nat j := True]))) True)"
      then have k: "k < nat n" using Suc.prems(4) by (simp add: fill_slice_length)
      show "fill_slice (F[nat j := True]) j (int (length (F[nat j := True]))) True ! k
                  = map (\<lambda>k. expected_flag pos h thr n (int k)) [0..<nat n] ! k"
      proof (cases "int k = j")
        case True
        with last have "nat (n - h - 1) \<le> k" by simp
        with True show ?thesis
          using k W jh last Suc.prems(1,2,3,4)
          by (simp add: fill_slice_nth slice_index_def expected_flag_def upd)
      next
        case False
        then show ?thesis
          using k W jh last Suc.prems(1,2,3,4) Fk [OF k]
          by (auto simp: fill_slice_nth slice_index_def partial_flag_def expected_flag_def upd)
      qed
    qed
    then show ?thesis using W jh last up' jn by (simp add: set_item_in_range)
  qed
qed

lemma static_loop_empty:
  assumes "n - h < h" "0 \<le> h"
  shows "static_loop pos h thr n [h..n - h - 1] (replicate (nat n) False)
         = Inr (map (\<lambda>k. expected_flag pos h thr n (int k)) [0..<nat n])"
proof -
  have "[h..n - h - 1] = []" using assms by simp
  moreover have "map (\<lambda>k. expected_flag pos h thr n (int k)) [0..<nat n] = replicate (nat n) False"
    using assms by (intro nth_equalityI) (auto simp: expected_flag_def)
  ultimately show ?thesis by simp
qed

lemma get_static_mask_flags:
  assumes "ts \<noteq> []" "last ts \<noteq> hd ts" "0 \<le> half_width ts window_size"
  shows "get_static_mask ts pos window_size std_dev_threshold =
           Inr (map (\<lambda>k. expected_flag pos (half_width ts window_size) (std_dev_threshold\<^sup>2)
                        (int (length ts)) (int k)) [0..<length ts])"
proof -
  define h where "h = half_width ts window_size"
  define n where "n = int (length ts)"
  define thr where "thr = std_dev_threshold\<^sup>2"
  have h0: "0 \<le> h" using assms(3) by (simp add: h_def)
  have nn: "nat n = length ts" by (simp add: n_def)
  have per: "(last ts - hd ts) / real (length ts) \<noteq> 0" using assms(1,2) by simp
  have unfold: "get_static_mask ts pos window_size std_dev_threshold =
      static_loop pos h thr n [h..n - h - 1] (replicate (nat n) False)"
    using assms(1) per
    unfolding get_static_mask_def Let_def h_def half_width_def n_def thr_def nat_int
    by (simp only: if_False)
  have "static_loop pos h thr n [h..n - h - 1] (replicate (nat n) False)
         = Inr (map (\<lambda>k. expected_flag pos h thr n (int k)) [0..<nat n])"
  proof (cases "n - h < h")
    case True
    then show ?thesis using static_loop_empty h0 by simp
  next
    case False
    have init: "replicate (nat n) False = map (\<lambda>k. partial_flag pos h thr n h (int k)) [0..<nat n]"
      by (intro nth_equalityI) (auto simp: partial_flag_def)
    have fin: "h = n - h \<longrightarrow> \<not> (h < n - h - 1 \<and> window_static pos h thr (n - h - 1))"
      by auto
    show ?thesis
      using static_loop_flags [OF h0 _ _ _ init fin] False by simp
  qed
  then show ?thesis unfolding unfold by (simp add: h_def n_def thr_def)
qed

lemma expected_flag_claimed:
  "n \<noteq> 2 * h + 1 \<Longrightarrow> expected_flag pos h thr n k = claimed_flag pos h thr n k"
  by (auto simp: expected_flag_def claimed_flag_def)

text \<open>
  Whenever the number of samples is not \<open>2 h + 1\<close> (and the stamps span a time, and
  the half width is not negative), \<open>get_static_mask\<close> returns the flags the
  specification describes.
\<close>

theorem get_static_mask_as_claimed:
  assumes "ts \<noteq> []" "last ts \<noteq> hd ts" "0 \<le> half_width ts window_size"
    and "int (length ts) \<noteq> 2 * half_width ts window_size + 1"
  shows "get_static_mask ts pos window_size std_dev_threshold =
           Inr (map (\<lambda>k. claimed_flag pos (half_width ts window_size) (std_dev_threshold\<^sup>2)
                        (int (length ts)) (int k)) [0..<length ts])"
  using get_static_mask_flags [OF assms(1,2,3)] expected_flag_claimed [OF assms(4)]
  by simp

lemma get_static_mask_five_samples:
  "get_static_mask [0, 1, 2, 3, 4] [(1, 0, 0), (0, 0, 0), (0, 0, 0), (0, 0, 0), (0, 0, 0)] 1.6 0.0008
     = Inr [False, False, True, True, True]"
  by (simp add: get_static_mask_def py_round_def Let_def window_static_def py_slice_def
      slice_index_def np_cov_def mean_def trace3_def set_item_def fill_slice_def upt_rec upto.simps
      power2_eq_square)

lemma half_width_five_samples: "half_width [0, 1, 2, 3, 4] 1.6 = 1"
  by (simp add: half_width_def py_round_def Let_def)

text \<open>
  Five samples one second apart, window size 1.6: the half width is 1; the sample moves
  between the first two stamps and rests afterwards, so the windows at 2 and 3 are
  static and the last index is marked with them.
\<close>

theorem get_static_mask_as_claimed_witness:
  "[0 :: real, 1, 2, 3, 4] \<noteq> [] \<and> last [0 :: real, 1, 2, 3, 4] \<noteq> hd [0, 1, 2, 3, 4] \<and>
   0 \<le> half_width [0, 1, 2, 3, 4] 1.6 \<and>
   int (length [0 :: real, 1, 2, 3, 4]) \<noteq> 2 * half_width [0, 1, 2, 3, 4] 1.6 + 1 \<and>
   get_static_mask [0, 1, 2, 3, 4] [(1, 0, 0), (0, 0, 0), (0, 0, 0), (0, 0, 0), (0, 0, 0)] 1.6 0.0008
     = Inr [False, False, True, True, True] \<and>
   map (\<lambda>k. claimed_flag [(1, 0, 0), (0, 0, 0), (0, 0, 0), (0, 0, 0), (0, 0, 0)]
               (half_width [0, 1, 2, 3, 4] 1.6) (0.0008\<^sup>2) (int (length [0 :: real, 1, 2, 3, 4])) (int k))
       [0..<length [0 :: real, 1, 2, 3, 4]]
     = [False, False, True, True, True]"
proof -
  have a: "[0 :: real, 1, 2, 3, 4] \<noteq> []" by simp
  have b: "last [0 :: real, 1, 2, 3, 4] \<noteq> hd [0, 1, 2, 3, 4]" by simp
  have c: "0 \<le> half_width [0, 1, 2, 3, 4] 1.6"
    unfolding half_width_five_samples by simp
  have d: "int (length [0 :: real, 1, 2, 3, 4]) \<noteq> 2 * half_width [0, 1, 2, 3, 4] 1.6 + 1"
    unfolding half_width_five_samples by simp
  from get_static_mask_as_claimed [OF a b c d, of
      "[(1, 0, 0), (0, 0, 0), (0, 0, 0), (0, 0, 0), (0, 0, 0)]" "0.0008"]
  have "Inr (map (\<lambda>k. claimed_flag [(1, 0, 0), (0, 0, 0), (0, 0, 0), (0, 0, 0), (0, 0, 0)]
               (half_width [0, 1, 2, 3, 4] 1.6) (0.0008\<^sup>2) (int (length [0 :: real, 1, 2, 3, 4])) (int k))
       [0..<length [0 :: real, 1, 2, 3, 4]])
     = (Inr [False, False, True, True, True] :: error + bool list)"
    unfolding get_static_mask_five_samples by (rule sym)
  then have e: "map (\<lambda>k. claimed_flag [(1, 0, 0), (0, 0, 0), (0, 0, 0), (0, 0, 0), (0, 0, 0)]
               (half_width [0, 1, 2, 3, 4] 1.6) (0.0008\<^sup>2) (int (length [0 :: real, 1, 2, 3, 4])) (int k))
       [0..<length [0 :: real, 1, 2, 3, 4]]
     = [False, False, True, True, True]"
    by (simp only: sum.inject)
  from a b c d e get_static_mask_five_samples show ?thesis by blast
qed

section \<open>Loading from recorded messages\<close>

text \<open>
  \<open>from_bag\<close> never reads its \<open>topic\<close> argument: the result is the same
  whatever topic is given.
\<close>

lemma from_bag_ignores_topic:
  "from_bag L R bagfile body_id topic = from_bag L R bagfile body_id None"
  by (simp add: from_bag_def)

text \<open>
  C9.  The claim is that supplying the \<open>topic\<close> argument selects the named stream and
  avoids the error.  A bag with the topics \<open>/ifo001/vrpn_client_node/ifo001/pose\<close> and
  \<open>/ifo001/vrpn_client_node/ifo001/pose_filtered\<close>, read for the body \<open>ifo001\<close> with
  the first topic named: both topics pass both filters and the code raises ValueError.
\<close>

theorem from_bag_raises_with_topic_given:
  "from_bag L \<lparr>open_bag = ob, bag_topics = (\<lambda>b. b), bag_to_list = btl\<rparr>
     (Bag [''/ifo001/vrpn_client_node/ifo001/pose'',
           ''/ifo001/vrpn_client_node/ifo001/pose_filtered''])
     ''ifo001'' (Some ''/ifo001/vrpn_client_node/ifo001/pose'') = Inl ValueError"
  by (simp add: from_bag_def)


section \<open>The static flag at a query time\<close>









text \<open>
  With increasing, distinct stamps, the nearest sample of a time at or before the first
  stamp is the first sample, and that of a time at or after the last stamp the last one.
\<close>

lemma nearest_before_first:
  assumes "sorted ts" "distinct ts" "ts \<noteq> []" "t \<le> hd ts" "nearest_sample ts t k"
  shows "k = 0"
proof -
  from assms(5) have k: "k < length ts" and all: "list_all (\<lambda>s. \<bar>ts ! k - t\<bar> \<le> \<bar>s - t\<bar>) ts"
    by simp_all
  have h: "hd ts = ts ! 0" using assms(3) by (simp add: hd_conv_nth)
  have "ts ! 0 \<in> set ts" using assms(3) by simp
  with all have "\<bar>ts ! k - t\<bar> \<le> \<bar>ts ! 0 - t\<bar>" by (simp add: list_all_iff)
  moreover have "ts ! 0 \<le> ts ! k" using assms(1) k by (simp add: sorted_nth_mono)
  ultimately have "ts ! k = ts ! 0" using assms(4) h by linarith
  then show ?thesis using assms(2,3) k by (simp add: nth_eq_iff_index_eq)
qed

lemma nearest_after_last:
  assumes "sorted ts" "distinct ts" "ts \<noteq> []" "last ts \<le> t" "nearest_sample ts t k"
  shows "k = length ts - 1"
proof -
  from assms(5) have k: "k < length ts" and all: "list_all (\<lambda>s. \<bar>ts ! k - t\<bar> \<le> \<bar>s - t\<bar>) ts"
    by simp_all
  let ?m = "length ts - 1"
  have m: "?m < length ts" using assms(3) by simp
  have l: "last ts = ts ! ?m" using assms(3) by (simp add: last_conv_nth)
  have "ts ! ?m \<in> set ts" using m nth_mem by blast
  with all have "\<bar>ts ! k - t\<bar> \<le> \<bar>ts ! ?m - t\<bar>" by (simp add: list_all_iff)
  moreover have "ts ! k \<le> ts ! ?m" using assms(1) k m by (intro sorted_nth_mono) auto
  ultimately have "ts ! k = ts ! ?m" using assms(4) l by linarith
  then show ?thesis using assms(2) k m by (simp add: nth_eq_iff_index_eq)
qed


text \<open>
  The constructor stores the stamps, the positions and the frame id it is given, and
  as \<open>raw_quaternion\<close> the quaternion rows after the continuity normalization, which
  rewrites the array in place.
\<close>

theorem init_stores_normalized_quaternions:
  assumes "init L ts position_data quaternion_data fid = Inr self"
  shows "stamps self = ts \<and> raw_position self = position_data \<and> frame_id self = fid \<and>
         raw_quaternion self = continuity_normalize (map Some quaternion_data)"
  using assms
  by (auto simp: init_def fit_quaternion_spline_def Let_def split: sum.splits prod.splits)





text \<open>
  The three samples above, given with quaternions of norm 2: the stored rows have norm 1.
\<close>

theorem init_stores_normalized_quaternions_witness:
  "init \<lparr>csaps3 = (\<lambda>ts pos s. Inr (\<lambda>t nu. (0, 0, 0))),
          csaps4 = (\<lambda>ts q s. Inr (\<lambda>t nu. (1, 0, 0, 0))),
          from_quat = (\<lambda>q. None), to_quat = (\<lambda>C. None), wedge = (\<lambda>v. eye3)\<rparr>
     [0, 1, 2] [(0, 0, 0), (0, 0, 0), (0, 0, 0)] [(2, 0, 0, 0), (2, 0, 0, 0), (- 2, 0, 0, 0)] None
   = Inr \<lparr>stamps = [0, 1, 2], raw_position = [(0, 0, 0), (0, 0, 0), (0, 0, 0)],
          raw_quaternion = [Some (1, 0, 0, 0), Some (1, 0, 0, 0), Some (1, 0, 0, 0)],
          frame_id = None, pos_spline = (\<lambda>t nu. (0, 0, 0)), quat_spline = (\<lambda>t nu. (1, 0, 0, 0)),
          static_mask = [True, True, False]\<rparr> \<and>
   continuity_normalize (map Some [(2, 0, 0, 0), (2, 0, 0, 0), (- 2, 0, 0, 0)])
     = [Some (1, 0, 0, 0), Some (1, 0, 0, 0), Some (1, 0, 0, 0)]"
proof -
  have c: "continuity_normalize (map Some [(2, 0, 0, 0), (2, 0, 0, 0), (- 2, 0, 0, 0)])
      = [Some (1, 0, 0, 0), Some (1, 0, 0, 0), Some (1, 0, 0, 0)]"
    by (simp add: continuity_normalize_def norm4_def div4_def neg4_def sub4_def Let_def)
  have i: "init \<lparr>csaps3 = (\<lambda>ts pos s. Inr (\<lambda>t nu. (0, 0, 0))),
          csaps4 = (\<lambda>ts q s. Inr (\<lambda>t nu. (1, 0, 0, 0))),
          from_quat = (\<lambda>q. None), to_quat = (\<lambda>C. None), wedge = (\<lambda>v. eye3)\<rparr>
     [0, 1, 2] [(0, 0, 0), (0, 0, 0), (0, 0, 0)] [(2, 0, 0, 0), (2, 0, 0, 0), (- 2, 0, 0, 0)] None
   = Inr \<lparr>stamps = [0, 1, 2], raw_position = [(0, 0, 0), (0, 0, 0), (0, 0, 0)],
          raw_quaternion = [Some (1, 0, 0, 0), Some (1, 0, 0, 0), Some (1, 0, 0, 0)],
          frame_id = None, pos_spline = (\<lambda>t nu. (0, 0, 0)), quat_spline = (\<lambda>t nu. (1, 0, 0, 0)),
          static_mask = [True, True, False]\<rparr>"
    unfolding init_def fit_position_spline_def fit_quaternion_spline_def Let_def c
      get_static_mask_three_samples
    by simp
  from init_stores_normalized_quaternions [OF i] i show ?thesis by simp
qed

end
